theory Spec2Isabelle
  imports Complex_Main "HOL-Library.AList"
begin

section \<open>Constants and errors\<close>

text \<open>
  The task names of \<^verbatim>\<open>constants.py\<close>, which key the criterion table, the model
  output and the target dictionary of \<^verbatim>\<open>task_analysis.py\<close>.
\<close>

datatype task = LOGICAL_FORM | PREDICATE_POINTER | TYPE_POINTER | ENTITY_POINTER | MULTITASK

text \<open>
  The failures of a run. The first four are the named errors of the specification; the
  program defines none of them, and \<open>CheckpointLoadError\<close> is raised nowhere.
  \<open>RuntimeError\<close> is what \<^verbatim>\<open>load_state_dict\<close> of the tensor library raises for a state
  that does not fit the model, \<open>IndexError\<close> what reading element 0 of an empty tensor
  raises, \<open>FileNotFoundError\<close> is \<^verbatim>\<open>torch.load\<close> on a missing file, \<open>KeyError\<close> a
  dictionary lookup that misses and \<open>TypeError\<close> a criterion called with the arguments of
  the other kind of criterion.
\<close>

datatype error =
    AlignmentError
  | ShapeMismatchError
  | CheckpointLoadError
  | MissingGoldError
  | RuntimeError
  | IndexError
  | FileNotFoundError
  | KeyError
  | TypeError

text \<open>
  Modelled from the spec: \<^verbatim>\<open>constants.py\<close> is not among the sources. The reserved
  padding symbol and the reserved symbol for a decode position without an entity; only
  that they are fixed symbols of the vocabularies matters.
\<close>

definition PAD_TOKEN :: string where
  "PAD_TOKEN = ''[PAD]''"

definition NA_TOKEN :: string where
  "NA_TOKEN = ''NA''"

section \<open>Tensors, vocabularies, batches\<close>

text \<open>
  A two-dimensional integer tensor of shape \<open>(length rows, ncols)\<close>: the batch
  dimension first, the time dimension last.
\<close>

record tensor =
  ncols :: nat
  rows :: "int list list"

definition wf_tensor :: "tensor \<Rightarrow> bool" where
  "wf_tensor t \<longleftrightarrow> list_all (\<lambda>r. length r = ncols t) (rows t)"

text \<open>\<^verbatim>\<open>t.size(0)\<close> and \<^verbatim>\<open>t.shape[-1]\<close>.\<close>

definition size0 :: "tensor \<Rightarrow> nat" where
  "size0 t = length (rows t)"

definition shape_last :: "tensor \<Rightarrow> nat" where
  "shape_last t = ncols t"

text \<open>\<^verbatim>\<open>t[:, :-1]\<close>: every row without its last position.\<close>

definition drop_last :: "tensor \<Rightarrow> tensor" where
  "drop_last t = \<lparr>ncols = ncols t - 1, rows = map butlast (rows t)\<rparr>"

text \<open>\<^verbatim>\<open>t[:, 1:]\<close>: every row without its first position.\<close>

definition drop_first :: "tensor \<Rightarrow> tensor" where
  "drop_first t = \<lparr>ncols = ncols t - 1, rows = map tl (rows t)\<rparr>"

text \<open>\<^verbatim>\<open>t.contiguous().view(-1)\<close>: the rows one after the other.\<close>

definition view_flat :: "tensor \<Rightarrow> int list" where
  "view_flat t = concat (rows t)"

text \<open>A torchtext vocabulary, read through its \<^verbatim>\<open>stoi\<close> table.\<close>

record vocab =
  stoi :: "string \<Rightarrow> int"

type_synonym vocabs = "task \<Rightarrow> vocab"

text \<open>
  A batch of the loader: the example ids and the parallel tensors of the fields.
\<close>

record batch =
  b_id :: "nat list"
  b_input :: tensor
  b_logical_form :: tensor
  b_predicate_pointer :: tensor
  b_type_pointer :: tensor
  b_entity_pointer :: tensor

section \<open>The collaborators from \<^verbatim>\<open>utils\<close> and \<^verbatim>\<open>model\<close>\<close>

subsection \<open>AverageMeter\<close>

text \<open>
  Modelled from the spec: \<^verbatim>\<open>utils.AverageMeter\<close> is not among the sources.
  \<open>update value weight\<close> adds \<open>value * weight\<close> to a running sum and \<open>weight\<close> to a
  running count; the average is sum / count, and 0 when the count is 0.
\<close>

record AverageMeter =
  meter_sum :: real
  meter_count :: nat

definition AverageMeter_new :: AverageMeter where
  "AverageMeter_new = \<lparr>meter_sum = 0, meter_count = 0\<rparr>"

definition update :: "AverageMeter \<Rightarrow> real \<Rightarrow> nat \<Rightarrow> AverageMeter" where
  "update m v n = \<lparr>meter_sum = meter_sum m + v * real n, meter_count = meter_count m + n\<rparr>"

definition avg :: "AverageMeter \<Rightarrow> real" where
  "avg m = (if meter_count m = 0 then 0 else meter_sum m / real (meter_count m))"

subsection \<open>construct\_entity\_target\<close>

text \<open>
  Modelled from the spec: the helper store is built by \<^verbatim>\<open>dataset\<close>, which is not among
  the sources. The helper record of one example: how many decode positions the example
  has, and for each position the context index of the entity mentioned there, if any.
  The store is keyed by example id.
\<close>

record helper_record =
  decode_length :: nat
  mention :: "nat \<Rightarrow> int option"

type_synonym helper_data = "nat \<Rightarrow> helper_record option"

text \<open>
  Modelled from the spec: \<^verbatim>\<open>utils.construct_entity_target\<close> is not among the sources.
  For each example of the batch and each decode position up to the target length: the
  context index of the mention at that position, the no-entity index where there is no
  mention, the PAD index beyond the example's decode length. An example id missing from
  the helper store is an \<open>AlignmentError\<close>.
\<close>

definition entity_row :: "vocab \<Rightarrow> helper_record \<Rightarrow> nat \<Rightarrow> int list" where
  "entity_row v h max_len =
     map (\<lambda>p. if p < decode_length h
              then (case mention h p of Some c \<Rightarrow> c | None \<Rightarrow> stoi v NA_TOKEN)
              else stoi v PAD_TOKEN)
         [0..<max_len]"

fun entity_rows :: "nat list \<Rightarrow> helper_data \<Rightarrow> vocab \<Rightarrow> nat \<Rightarrow> error + int list list" where
  "entity_rows [] helper v max_len = Inr []"
| "entity_rows (i # ids) helper v max_len =
     (case helper i of
        None \<Rightarrow> Inl AlignmentError
      | Some h \<Rightarrow>
          (case entity_rows ids helper v max_len of
             Inl e \<Rightarrow> Inl e
           | Inr rs \<Rightarrow> Inr (entity_row v h max_len # rs)))"

definition construct_entity_target ::
  "nat list \<Rightarrow> helper_data \<Rightarrow> vocabs \<Rightarrow> nat \<Rightarrow> error + tensor" where
  "construct_entity_target ids helper vs max_len =
     (case entity_rows ids helper (vs ENTITY_POINTER) max_len of
        Inl e \<Rightarrow> Inl e
      | Inr rs \<Rightarrow> Inr \<lparr>ncols = max_len, rows = rs\<rparr>)"

subsection \<open>SingleTaskLoss and MultiTaskLoss\<close>

text \<open>
  Flattened logits: one list of class scores per position. The model's output holds one
  such list of positions per task.
\<close>

type_synonym logits = "real list list"

type_synonym model_output = "task \<Rightarrow> logits"

text \<open>
  A criterion object, holding the \<^verbatim>\<open>ignore_index\<close> it was constructed with.
\<close>

datatype criterion = SingleTaskLoss int | MultiTaskLoss int

fun ignore_index :: "criterion \<Rightarrow> int" where
  "ignore_index (SingleTaskLoss ig) = ig"
| "ignore_index (MultiTaskLoss ig) = ig"

text \<open>
  Modelled from the spec: \<^verbatim>\<open>utils.SingleTaskLoss\<close> is not among the sources. A
  token-level classification loss \<open>ce\<close> (the cross-entropy of the tensor library, a
  parameter here) averaged over the positions whose target is not the ignore index;
  0 when every position is ignored; \<open>ShapeMismatchError\<close> when logits and targets differ in
  their number of positions.
\<close>

definition kept_positions :: "int \<Rightarrow> logits \<Rightarrow> int list \<Rightarrow> (real list \<times> int) list" where
  "kept_positions ig out tgt = filter (\<lambda>p. snd p \<noteq> ig) (zip out tgt)"

definition single_task_loss ::
  "(real list \<Rightarrow> int \<Rightarrow> real) \<Rightarrow> int \<Rightarrow> logits \<Rightarrow> int list \<Rightarrow> error + real" where
  "single_task_loss ce ig out tgt =
     (if length out \<noteq> length tgt then Inl ShapeMismatchError
      else (let kept = kept_positions ig out tgt
            in Inr (if kept = [] then 0
                    else (\<Sum>p\<leftarrow>kept. ce (fst p) (snd p)) / real (length kept))))"

text \<open>
  Modelled from the spec: \<^verbatim>\<open>utils.MultiTaskLoss\<close> is not among the sources. The
  single-task loss of each of the four tasks, all four computed, combined into one
  scalar by a combination policy that is a parameter.
\<close>

definition tasks :: "task list" where
  "tasks = [LOGICAL_FORM, PREDICATE_POINTER, TYPE_POINTER, ENTITY_POINTER]"

fun collect :: "(error + 'a) list \<Rightarrow> error + 'a list" where
  "collect [] = Inr []"
| "collect (Inl e # rs) = Inl e"
| "collect (Inr x # rs) = (case collect rs of Inl e \<Rightarrow> Inl e | Inr xs \<Rightarrow> Inr (x # xs))"

definition multi_task_loss ::
  "(real list \<Rightarrow> int \<Rightarrow> real) \<Rightarrow> (real list \<Rightarrow> real) \<Rightarrow> int \<Rightarrow> model_output \<Rightarrow> (task \<Rightarrow> int list option)
     \<Rightarrow> error + real" where
  "multi_task_loss ce combine ig out tgt =
     (case collect (map (\<lambda>t. case tgt t of
                               None \<Rightarrow> Inl KeyError
                             | Some y \<Rightarrow> single_task_loss ce ig (out t) y) tasks) of
        Inl e \<Rightarrow> Inl e
      | Inr ls \<Rightarrow> Inr (combine ls))"

subsection \<open>The model and the other external functions\<close>

text \<open>
  The model object: its parameters by name (each a shape and its values) and the
  \<^verbatim>\<open>training\<close> flag that \<^verbatim>\<open>eval()\<close> clears.
\<close>

type_synonym param = "nat list \<times> real list"

record model_state =
  parameters :: "(string \<times> param) list"
  training :: bool

text \<open>
  What the program takes from outside its own file. \<open>forward\<close> is the model's forward
  pass, given the model object, whether gradients are being recorded, and the three
  arguments of the call; it may fail. \<open>cross_entropy\<close> and \<open>combine\<close> are the
  parameters of the two criteria. \<open>decoder_scores\<close> gives, for an input and the
  logical-form symbols decoded so far, the scores of the next symbol of each task;
  \<open>max_decode_len\<close> bounds the decoding and \<open>end_symbol\<close> is the end marker of the
  logical-form stream.
\<close>

record extern =
  forward :: "model_state \<Rightarrow> bool \<Rightarrow> tensor \<Rightarrow> tensor \<Rightarrow> tensor \<Rightarrow> error + model_output"
  cross_entropy :: "real list \<Rightarrow> int \<Rightarrow> real"
  combine :: "real list \<Rightarrow> real"
  decoder_scores :: "model_state \<Rightarrow> int list \<Rightarrow> nat list \<Rightarrow> task \<Rightarrow> real list"
  max_decode_len :: nat
  end_symbol :: nat

text \<open>
  Calling a criterion the way \<^verbatim>\<open>test\<close> does in multi-task mode (with the two
  dictionaries) and in single-task mode (with one task's logits and targets).
\<close>

fun call_multi :: "extern \<Rightarrow> criterion \<Rightarrow> model_output \<Rightarrow> (task \<Rightarrow> int list option) \<Rightarrow> error + real" where
  "call_multi ext (MultiTaskLoss ig) out tgt =
     multi_task_loss (cross_entropy ext) (combine ext) ig out tgt"
| "call_multi ext (SingleTaskLoss ig) out tgt = Inl TypeError"

fun call_single :: "extern \<Rightarrow> criterion \<Rightarrow> logits \<Rightarrow> int list \<Rightarrow> error + real" where
  "call_single ext (SingleTaskLoss ig) out tgt = single_task_loss (cross_entropy ext) ig out tgt"
| "call_single ext (MultiTaskLoss ig) out tgt = Inl TypeError"

section \<open>The loss pass: \<^verbatim>\<open>test\<close>\<close>

text \<open>
  The state the program changes: the model object, the global gradient-recording mode
  of the tensor library, the log, \<^verbatim>\<open>args.start_epoch\<close> and the results file.
\<close>

datatype msg =
    Loading_checkpoint string
  | Loaded_checkpoint string int
  | Loaders_prepared
  | Validation_data nat
  | Test_data nat
  | Val_Loss real
  | Test_Loss real
  | Data_Results string
  | Question_type string
  | Task_accuracy task real

text \<open>
  Modelled from the spec: the results of \<^verbatim>\<open>utils.Scorer\<close>, which is not among the
  sources. A table from question-type category to task to the counts behind the
  accuracy, in the order in which the keys were first written.
\<close>

record score =
  matches :: nat
  total :: nat

type_synonym results_table = "(string \<times> (task \<times> score) list) list"

record world =
  model :: model_state
  grad_enabled :: bool
  log :: "msg list"
  start_epoch :: int
  results_file :: "results_table option"

text \<open>The target dictionary of one batch, given the entity target built for it.\<close>

definition target :: "batch \<Rightarrow> tensor \<Rightarrow> task \<Rightarrow> int list option" where
  "target b entity_t =
     (Map.empty
        (LOGICAL_FORM \<mapsto> view_flat (drop_first (b_logical_form b)),
         PREDICATE_POINTER \<mapsto> view_flat (drop_first (b_predicate_pointer b)),
         TYPE_POINTER \<mapsto> view_flat (drop_first (b_type_pointer b)),
         ENTITY_POINTER \<mapsto> view_flat (drop_first entity_t)))"

text \<open>The body of the loop of \<^verbatim>\<open>test\<close> up to the loss of the batch.\<close>

definition batch_loss ::
  "extern \<Rightarrow> task \<Rightarrow> model_state \<Rightarrow> bool \<Rightarrow> vocabs \<Rightarrow> helper_data \<Rightarrow> criterion \<Rightarrow> batch
     \<Rightarrow> error + real" where
  "batch_loss ext args_task m grad vs helper crit b =
     (let input = b_input b;
          logical_form = b_logical_form b;
          predicate_t = b_predicate_pointer b
      in case construct_entity_target (b_id b) helper vs (shape_last predicate_t) of
           Inl e \<Rightarrow> Inl e
         | Inr entity_t \<Rightarrow>
             (case forward ext m grad input (drop_last logical_form) (b_entity_pointer b) of
                Inl e \<Rightarrow> Inl e
              | Inr out \<Rightarrow>
                  (if args_task = MULTITASK then call_multi ext crit out (target b entity_t)
                   else (case target b entity_t args_task of
                           None \<Rightarrow> Inl KeyError
                         | Some y \<Rightarrow> call_single ext crit (out args_task) y))))"

text \<open>The loop over the loader: the first failing batch ends the pass.\<close>

fun test_loop ::
  "extern \<Rightarrow> task \<Rightarrow> model_state \<Rightarrow> bool \<Rightarrow> vocabs \<Rightarrow> helper_data \<Rightarrow> criterion \<Rightarrow> batch list
     \<Rightarrow> AverageMeter \<Rightarrow> error + AverageMeter" where
  "test_loop ext args_task m grad vs helper crit [] losses = Inr losses"
| "test_loop ext args_task m grad vs helper crit (b # bs) losses =
     (case batch_loss ext args_task m grad vs helper crit b of
        Inl e \<Rightarrow> Inl e
      | Inr loss \<Rightarrow>
          test_loop ext args_task m grad vs helper crit bs
            (update losses loss (size0 (b_input b))))"

text \<open>
  \<^verbatim>\<open>test\<close>: \<^verbatim>\<open>model.eval()\<close> clears the training flag; \<^verbatim>\<open>with torch.no_grad()\<close> saves
  the gradient mode, switches it off for the loop and puts the saved mode back when
  the block is left, by its end or by an exception.
\<close>

definition test ::
  "extern \<Rightarrow> task \<Rightarrow> batch list \<Rightarrow> vocabs \<Rightarrow> helper_data \<Rightarrow> criterion \<Rightarrow> world
     \<Rightarrow> (error + real) \<times> world" where
  "test ext args_task loader vs helper crit w =
     (let losses = AverageMeter_new;
          w1 = w\<lparr>model := (model w)\<lparr>training := False\<rparr>\<rparr>;
          prev = grad_enabled w1;
          w2 = w1\<lparr>grad_enabled := False\<rparr>;
          r = test_loop ext args_task (model w2) (grad_enabled w2) vs helper crit loader losses;
          w3 = w2\<lparr>grad_enabled := prev\<rparr>
      in case r of
           Inl e \<Rightarrow> (Inl e, w3)
         | Inr l \<Rightarrow> (Inr (avg l), w3))"

section \<open>Checkpoint loading\<close>

text \<open>
  A checkpoint is a dictionary read with the keys \<^verbatim>\<open>EPOCH\<close> and \<^verbatim>\<open>STATE_DICT\<close>; a
  missing key is a \<open>KeyError\<close>. \<^verbatim>\<open>torch.load\<close> reads it from a path of the file system.
\<close>

record checkpoint =
  ck_epoch :: "int option"
  ck_state_dict :: "(string \<times> param) list option"

definition torch_load :: "(string \<Rightarrow> checkpoint option) \<Rightarrow> string \<Rightarrow> error + checkpoint" where
  "torch_load files path = (case files path of None \<Rightarrow> Inl FileNotFoundError | Some c \<Rightarrow> Inr c)"

text \<open>
  \<^verbatim>\<open>model.load_state_dict(sd)\<close> of the tensor library, strict as it is by default. The
  parameters of the model are visited in order. A parameter whose name is missing from
  \<open>sd\<close> is recorded as an error. For a parameter found in \<open>sd\<close>, a tensor of one
  dimension offered to a parameter of no dimension is first replaced by its element 0
  (which raises \<open>IndexError\<close> at once when the tensor is empty); then a shape that
  differs from the parameter's is recorded as an error, and a tensor of the same shape
  is copied into the parameter. When all parameters are visited, a recorded error or a
  name of \<open>sd\<close> that the model does not have raises \<open>RuntimeError\<close>. What was copied
  stays copied.
\<close>

definition adapt :: "param \<Rightarrow> param \<Rightarrow> error + param" where
  "adapt p q =
     (if fst p = [] \<and> length (fst q) = 1
      then (if fst q = [0] then Inl IndexError else Inr ([], take 1 (snd q)))
      else Inr q)"

fun load_params ::
  "(string \<times> param) list \<Rightarrow> (string \<times> param) list
     \<Rightarrow> (string \<times> param) list \<times> error option \<times> bool" where
  "load_params [] sd = ([], None, False)"
| "load_params ((k, p) # own) sd =
     (case map_of sd k of
        None \<Rightarrow>
          (case load_params own sd of (ps, exn, bad) \<Rightarrow> ((k, p) # ps, exn, True))
      | Some q \<Rightarrow>
          (case adapt p q of
             Inl e \<Rightarrow> ((k, p) # own, Some e, False)
           | Inr q' \<Rightarrow>
               (case load_params own sd of
                  (ps, exn, bad) \<Rightarrow>
                    if fst q' = fst p then ((k, q') # ps, exn, bad)
                    else ((k, p) # ps, exn, True))))"

definition load_state_dict :: "model_state \<Rightarrow> (string \<times> param) list \<Rightarrow> (error + unit) \<times> model_state" where
  "load_state_dict m sd =
     (case load_params (parameters m) sd of
        (ps, exn, bad) \<Rightarrow>
          (let m' = m\<lparr>parameters := ps\<rparr>
           in case exn of
                Some e \<Rightarrow> (Inl e, m')
              | None \<Rightarrow>
                  if bad \<or> \<not> list_all (\<lambda>(k, q). k \<in> set (map fst (parameters m))) sd
                  then (Inl RuntimeError, m')
                  else (Inr (), m')))"

section \<open>Predictor\<close>

text \<open>
  A raw example of a partition: its id, its input, its question-type category and its
  gold sequence for each task, where it is annotated.
\<close>

record example =
  ex_id :: nat
  ex_input :: "int list"
  question_type :: string
  gold :: "task \<Rightarrow> nat list option"

text \<open>
  The index of the greatest score, the first one among equals (0 for no scores at all:
  a vocabulary always holds its reserved symbols).
\<close>

fun argmax_from :: "nat \<Rightarrow> real \<Rightarrow> nat \<Rightarrow> real list \<Rightarrow> nat" where
  "argmax_from best bv i [] = best"
| "argmax_from best bv i (x # xs) =
     (if bv < x then argmax_from i x (Suc i) xs else argmax_from best bv (Suc i) xs)"

definition argmax :: "real list \<Rightarrow> nat" where
  "argmax xs = (case xs of [] \<Rightarrow> 0 | x # rest \<Rightarrow> argmax_from 0 x 1 rest)"

text \<open>
  Modelled from the spec: \<^verbatim>\<open>utils.Predictor\<close> is not among the sources. The decoder
  runs the model in inference mode (the training flag cleared), starting from the start
  marker with nothing emitted. Each step takes the arg-max symbol of every task; the
  logical-form symbol is fed back as the next input. Decoding stops when the
  logical-form symbol is the end marker, which is not emitted, or when the maximum
  length is reached.
\<close>

record decoder_state =
  fed :: "nat list"
  emitted :: "task \<Rightarrow> nat list"

definition decoder_init :: decoder_state where
  "decoder_init = \<lparr>fed = [], emitted = (\<lambda>t. [])\<rparr>"

definition next_symbol :: "extern \<Rightarrow> model_state \<Rightarrow> int list \<Rightarrow> decoder_state \<Rightarrow> task \<Rightarrow> nat" where
  "next_symbol ext m x s t = argmax (decoder_scores ext (m\<lparr>training := False\<rparr>) x (fed s) t)"

definition advance :: "extern \<Rightarrow> model_state \<Rightarrow> int list \<Rightarrow> decoder_state \<Rightarrow> decoder_state" where
  "advance ext m x s =
     \<lparr>fed = fed s @ [next_symbol ext m x s LOGICAL_FORM],
      emitted = (\<lambda>t. emitted s t @ [next_symbol ext m x s t])\<rparr>"

inductive decodes ::
  "extern \<Rightarrow> model_state \<Rightarrow> int list \<Rightarrow> decoder_state \<Rightarrow> (task \<Rightarrow> nat list) \<Rightarrow> bool"
  for ext :: extern and m :: model_state and x :: "int list" where
  stop_max:
    "max_decode_len ext \<le> length (fed s) \<Longrightarrow> decodes ext m x s (emitted s)"
| stop_end:
    "length (fed s) < max_decode_len ext \<Longrightarrow>
     next_symbol ext m x s LOGICAL_FORM = end_symbol ext \<Longrightarrow>
     decodes ext m x s (emitted s)"
| step:
    "length (fed s) < max_decode_len ext \<Longrightarrow>
     next_symbol ext m x s LOGICAL_FORM \<noteq> end_symbol ext \<Longrightarrow>
     decodes ext m x (advance ext m x s) r \<Longrightarrow>
     decodes ext m x s r"

text \<open>The same machine as a loop that runs at most as many steps as are left.\<close>

fun decode_loop ::
  "extern \<Rightarrow> model_state \<Rightarrow> int list \<Rightarrow> nat \<Rightarrow> decoder_state \<Rightarrow> task \<Rightarrow> nat list" where
  "decode_loop ext m x 0 s = emitted s"
| "decode_loop ext m x (Suc n) s =
     (if next_symbol ext m x s LOGICAL_FORM = end_symbol ext then emitted s
      else decode_loop ext m x n (advance ext m x s))"

definition Predictor :: "extern \<Rightarrow> model_state \<Rightarrow> vocabs \<Rightarrow> example \<Rightarrow> task \<Rightarrow> nat list" where
  "Predictor ext m vs ex = decode_loop ext m (ex_input ex) (max_decode_len ext) decoder_init"

section \<open>Scorer\<close>

text \<open>
  Modelled from the spec: \<^verbatim>\<open>utils.Scorer\<close> is not among the sources. Every example is
  decoded and each of its four decoded sequences compared with the gold sequence for
  exact equality; a missing gold sequence is a \<open>MissingGoldError\<close>. The table counts, for
  the example's question-type category and each task, the matches and the examples;
  the accuracy of an entry is matches / examples.
\<close>

definition exact_match :: "nat list \<Rightarrow> nat list \<Rightarrow> bool" where
  "exact_match decoded g \<longleftrightarrow> decoded = g"

definition score_example :: "(task \<Rightarrow> nat list) \<Rightarrow> example \<Rightarrow> error + (task \<times> bool) list" where
  "score_example decoded ex =
     collect (map (\<lambda>t. case gold ex t of
                         None \<Rightarrow> Inl MissingGoldError
                       | Some g \<Rightarrow> Inr (t, exact_match (decoded t) g)) tasks)"

definition score_zero :: score where
  "score_zero = \<lparr>matches = 0, total = 0\<rparr>"

definition bump :: "bool \<Rightarrow> score \<Rightarrow> score" where
  "bump ok s = \<lparr>matches = matches s + (if ok then 1 else 0), total = total s + 1\<rparr>"

definition record_task :: "task \<times> bool \<Rightarrow> (task \<times> score) list \<Rightarrow> (task \<times> score) list" where
  "record_task tb row =
     AList.update (fst tb)
       (bump (snd tb) (case map_of row (fst tb) of None \<Rightarrow> score_zero | Some s \<Rightarrow> s)) row"

definition record_scores :: "results_table \<Rightarrow> string \<Rightarrow> (task \<times> bool) list \<Rightarrow> results_table" where
  "record_scores tbl c scored =
     AList.update c
       (fold record_task scored (case map_of tbl c of None \<Rightarrow> [] | Some row \<Rightarrow> row)) tbl"

fun score_loop ::
  "(example \<Rightarrow> task \<Rightarrow> nat list) \<Rightarrow> example list \<Rightarrow> results_table \<Rightarrow> error + results_table" where
  "score_loop predictor [] tbl = Inr tbl"
| "score_loop predictor (ex # exs) tbl =
     (case score_example (predictor ex) ex of
        Inl e \<Rightarrow> Inl e
      | Inr scored \<Rightarrow> score_loop predictor exs (record_scores tbl (question_type ex) scored))"

definition data_score ::
  "example list \<Rightarrow> helper_data \<Rightarrow> (example \<Rightarrow> task \<Rightarrow> nat list) \<Rightarrow> error + results_table" where
  "data_score examples helper predictor = score_loop predictor examples []"

definition accuracy :: "score \<Rightarrow> real" where
  "accuracy s = real (matches s) / real (total s)"

section \<open>The orchestrator: \<^verbatim>\<open>main\<close>\<close>

text \<open>
  What \<^verbatim>\<open>main\<close> reads: the command-line arguments and path constants, the dataset
  with its vocabularies, partitions and helper stores, the constructor of the model,
  the file system holding the checkpoint, the iterator that groups a partition into
  batches, and the external functions.
\<close>

record env =
  args_task :: task
  args_model_path :: string
  args_batch_size :: nat
  ROOT_PATH :: string
  device_is_cpu :: bool
  get_vocabs :: vocabs
  val_data :: "example list"
  test_data :: "example list"
  val_helper :: helper_data
  test_helper :: helper_data
  CARTON :: "vocabs \<Rightarrow> model_state"
  files :: "string \<Rightarrow> checkpoint option"
  BucketIterator :: "example list \<Rightarrow> nat \<Rightarrow> batch list"
  externals :: extern

text \<open>The criterion table of \<^verbatim>\<open>main\<close>, indexed by the task and applied to the ignore index.\<close>

definition criterion_table :: "task \<Rightarrow> int \<Rightarrow> criterion" where
  "criterion_table t =
     (case t of
        LOGICAL_FORM \<Rightarrow> SingleTaskLoss
      | PREDICATE_POINTER \<Rightarrow> SingleTaskLoss
      | TYPE_POINTER \<Rightarrow> SingleTaskLoss
      | ENTITY_POINTER \<Rightarrow> SingleTaskLoss
      | MULTITASK \<Rightarrow> MultiTaskLoss)"

definition make_criterion :: "task \<Rightarrow> vocabs \<Rightarrow> criterion" where
  "make_criterion t vs = criterion_table t (stoi (vs LOGICAL_FORM) PAD_TOKEN)"

text \<open>The messages of the final loop over the listed partitions and their results.\<close>

definition report :: "(string \<times> results_table) list \<Rightarrow> msg list" where
  "report parts =
     concat (map (\<lambda>(partition, results).
        Data_Results partition #
        concat (map (\<lambda>(qt, qres).
          Question_type qt # map (\<lambda>(t, r). Task_accuracy t (accuracy r)) qres) results)) parts)"

definition info :: "msg \<Rightarrow> world \<Rightarrow> world" where
  "info msg w = w\<lparr>log := log w @ [msg]\<rparr>"

definition main :: "env \<Rightarrow> world \<Rightarrow> (error + unit) \<times> world" where
  "main env w0 =
     (let vs = get_vocabs env;
          w1 = w0\<lparr>model := CARTON env vs\<rparr>;
          crit = make_criterion (args_task env) vs;
          w2 = info (Loading_checkpoint (args_model_path env)) w1;
          path = ROOT_PATH env @ ''/'' @ args_model_path env;
          loaded = (if device_is_cpu env then torch_load (files env) path
                    else torch_load (files env) path)
      in case loaded of
           Inl e \<Rightarrow> (Inl e, w2)
         | Inr ck \<Rightarrow>
        (case ck_epoch ck of
           None \<Rightarrow> (Inl KeyError, w2)
         | Some ep \<Rightarrow>
        (let w3 = w2\<lparr>start_epoch := ep\<rparr>
         in case ck_state_dict ck of
              None \<Rightarrow> (Inl KeyError, w3)
            | Some sd \<Rightarrow>
        (case load_state_dict (model w3) sd of
           (Inl e, m') \<Rightarrow> (Inl e, w3\<lparr>model := m'\<rparr>)
         | (Inr u, m') \<Rightarrow>
        (let w4 = info (Loaded_checkpoint (args_model_path env) ep) (w3\<lparr>model := m'\<rparr>);
             val_loader = BucketIterator env (val_data env) (args_batch_size env);
             test_loader = BucketIterator env (test_data env) (args_batch_size env);
             w5 = info (Test_data (length (test_data env)))
                    (info (Validation_data (length (val_data env)))
                       (info Loaders_prepared w4))
         in case test (externals env) (args_task env) val_loader vs (val_helper env) crit w5 of
              (Inl e, w6) \<Rightarrow> (Inl e, w6)
            | (Inr val_loss, w6) \<Rightarrow>
        (let w7 = info (Val_Loss val_loss) w6
         in case test (externals env) (args_task env) test_loader vs (test_helper env) crit w7 of
              (Inl e, w8) \<Rightarrow> (Inl e, w8)
            | (Inr test_loss, w8) \<Rightarrow>
        (let w9 = info (Test_Loss test_loss) w8;
             predictor = Predictor (externals env) (model w9) vs
         in case data_score (test_data env) (test_helper env) predictor of
              Inl e \<Rightarrow> (Inl e, w9)
            | Inr results \<Rightarrow>
                (let w10 = w9\<lparr>results_file := Some results\<rparr>;
                     w11 = w10\<lparr>log := log w10 @ report [(''Test'', results)]\<rparr>
                 in (Inr (), w11)))))))))"

section \<open>Notions used to state the properties\<close>

text \<open>The mean of values weighted by counts, 0 when the counts add up to 0.\<close>

definition weighted_mean :: "(real \<times> nat) list \<Rightarrow> real" where
  "weighted_mean ps =
     (if (\<Sum>p\<leftarrow>ps. snd p) = 0 then 0
      else (\<Sum>p\<leftarrow>ps. fst p * real (snd p)) / real (\<Sum>p\<leftarrow>ps. snd p))"

text \<open>The loss of every batch of a loader, paired with the number of examples of the batch.\<close>

definition meter_updates ::
  "extern \<Rightarrow> task \<Rightarrow> model_state \<Rightarrow> bool \<Rightarrow> vocabs \<Rightarrow> helper_data \<Rightarrow> criterion \<Rightarrow> batch list
     \<Rightarrow> (real \<times> nat) list" where
  "meter_updates ex t m g vs helper crit loader =
     map (\<lambda>b. (projr (batch_loss ex t m g vs helper crit b), size0 (b_input b))) loader"

text \<open>
  The external functions with the forward pass fixed to evaluation mode without gradient
  recording, whatever mode it is called in.
\<close>

definition eval_only :: "extern \<Rightarrow> extern" where
  "eval_only ex = ex\<lparr>forward := (\<lambda>m g. forward ex (m\<lparr>training := False\<rparr>) False)\<rparr>"

text \<open>
  The external functions with the forward pass defined only at the arguments that the
  loss step of batch \<open>b\<close> passes: the input, the logical form without its last position,
  the entity-pointer field.
\<close>

definition only_at :: "batch \<Rightarrow> extern \<Rightarrow> extern" where
  "only_at b ex =
     ex\<lparr>forward := (\<lambda>m g inp lf ep.
           if inp = b_input b \<and> lf = drop_last (b_logical_form b) \<and> ep = b_entity_pointer b
           then forward ex m g inp lf ep else Inl TypeError)\<rparr>"

text \<open>
  The invariant of a batch: the sequence fields are rectangular, share the time dimension
  and have one row per example.
\<close>

definition wf_batch :: "batch \<Rightarrow> bool" where
  "wf_batch b \<longleftrightarrow>
     wf_tensor (b_logical_form b) \<and> wf_tensor (b_predicate_pointer b) \<and> wf_tensor (b_type_pointer b)
     \<and> ncols (b_predicate_pointer b) = ncols (b_logical_form b)
     \<and> ncols (b_type_pointer b) = ncols (b_logical_form b)
     \<and> size0 (b_logical_form b) = size0 (b_input b)
     \<and> size0 (b_predicate_pointer b) = size0 (b_input b)
     \<and> size0 (b_type_pointer b) = size0 (b_input b)
     \<and> length (b_id b) = size0 (b_input b)"

text \<open>The sequence tensor that the target of a task is cut from.\<close>

definition task_sequence :: "batch \<Rightarrow> tensor \<Rightarrow> task \<Rightarrow> tensor" where
  "task_sequence b entity_t t =
     (case t of
        LOGICAL_FORM \<Rightarrow> b_logical_form b
      | PREDICATE_POINTER \<Rightarrow> b_predicate_pointer b
      | TYPE_POINTER \<Rightarrow> b_type_pointer b
      | _ \<Rightarrow> entity_t)"

text \<open>The positions of a list of (logits, target) pairs whose target is a given padding index.\<close>

definition padding_positions :: "int \<Rightarrow> (real list \<times> int) list \<Rightarrow> (real list \<times> int) list" where
  "padding_positions pad ps = filter (\<lambda>q. snd q = pad) ps"

text \<open>
  A state that the strict loading accepts for a list of parameters: every parameter has
  a tensor of its name that fits it, and every name of the state is a parameter. A
  tensor fits a parameter of the same shape; a non-empty tensor of one dimension also
  fits a parameter of no dimension.
\<close>

definition fits :: "param \<Rightarrow> param \<Rightarrow> bool" where
  "fits p q \<longleftrightarrow> (case adapt p q of Inl e \<Rightarrow> False | Inr q' \<Rightarrow> fst q' = fst p)"

definition compatible :: "(string \<times> param) list \<Rightarrow> (string \<times> param) list \<Rightarrow> bool" where
  "compatible own sd \<longleftrightarrow>
     list_all (\<lambda>(k, p). case map_of sd k of None \<Rightarrow> False | Some q \<Rightarrow> fits p q) own
     \<and> list_all (\<lambda>(k, q). k \<in> set (map fst own)) sd"

text \<open>Some parameter of no dimension is offered an empty tensor of one dimension.\<close>

definition raises_index_error :: "(string \<times> param) list \<Rightarrow> (string \<times> param) list \<Rightarrow> bool" where
  "raises_index_error own sd \<longleftrightarrow>
     list_ex (\<lambda>(k, p). case map_of sd k of None \<Rightarrow> False | Some q \<Rightarrow> isl (adapt p q)) own"

text \<open>
  An index of a greatest score, with only smaller scores before it (index 0 of an empty
  list).
\<close>

definition is_first_argmax :: "real list \<Rightarrow> nat \<Rightarrow> bool" where
  "is_first_argmax xs k \<longleftrightarrow>
     (if xs = [] then k = 0
      else k < length xs \<and> list_all (\<lambda>x. x \<le> xs ! k) xs \<and> list_all (\<lambda>x. x < xs ! k) (take k xs))"

text \<open>
  A result of the decoder that is greedy: the streams have one length, the symbol of
  every stream at every step is the arg-max of the scores computed in evaluation mode
  for the logical-form symbols before that step, and the logical-form stream holds no
  end marker.
\<close>

definition greedy_run :: "extern \<Rightarrow> model_state \<Rightarrow> int list \<Rightarrow> (task \<Rightarrow> nat list) \<Rightarrow> bool" where
  "greedy_run ex m x r \<longleftrightarrow>
     (\<forall>t. length (r t) = length (r LOGICAL_FORM))
     \<and> (\<forall>t. \<forall>i<length (r LOGICAL_FORM).
           r t ! i = argmax (decoder_scores ex (m\<lparr>training := False\<rparr>) x (take i (r LOGICAL_FORM)) t))
     \<and> end_symbol ex \<notin> set (r LOGICAL_FORM)"

text \<open>
  The external functions with the decoder scores fixed to evaluation mode, whatever
  mode the model object is in.
\<close>

definition eval_scores :: "extern \<Rightarrow> extern" where
  "eval_scores ex = ex\<lparr>decoder_scores := (\<lambda>m. decoder_scores ex (m\<lparr>training := False\<rparr>))\<rparr>"

text \<open>The path of the checkpoint and the two loaders of \<^verbatim>\<open>main\<close>.\<close>

definition checkpoint_path :: "env \<Rightarrow> string" where
  "checkpoint_path env = ROOT_PATH env @ ''/'' @ args_model_path env"

definition val_loader :: "env \<Rightarrow> batch list" where
  "val_loader env = BucketIterator env (val_data env) (args_batch_size env)"

definition test_loader :: "env \<Rightarrow> batch list" where
  "test_loader env = BucketIterator env (test_data env) (args_batch_size env)"

text \<open>The partitions whose results a log reports.\<close>

definition reported_partitions :: "msg list \<Rightarrow> string list" where
  "reported_partitions msgs = concat (map (\<lambda>m. case m of Data_Results p \<Rightarrow> [p] | _ \<Rightarrow> []) msgs)"

text \<open>Counting the examples of a category, and those among them that match on a task.\<close>

definition n_examples :: "string \<Rightarrow> example list \<Rightarrow> nat" where
  "n_examples c exs = length (filter (\<lambda>e. question_type e = c) exs)"

definition n_matches :: "(example \<Rightarrow> task \<Rightarrow> nat list) \<Rightarrow> string \<Rightarrow> task \<Rightarrow> example list \<Rightarrow> nat" where
  "n_matches predictor c t exs =
     length (filter (\<lambda>e. question_type e = c \<and> gold e t = Some (predictor e t)) exs)"

text \<open>The entry of a table for a category and a task, zero counts where there is none.\<close>

definition cell :: "results_table \<Rightarrow> string \<Rightarrow> task \<Rightarrow> score" where
  "cell tbl c t =
     (case map_of tbl c of
        None \<Rightarrow> score_zero
      | Some row \<Rightarrow> (case map_of row t of None \<Rightarrow> score_zero | Some s \<Rightarrow> s))"

definition complete_rows :: "results_table \<Rightarrow> bool" where
  "complete_rows tbl \<longleftrightarrow> (\<forall>c row. map_of tbl c = Some row \<longrightarrow> set tasks \<subseteq> fst ` set row)"

section \<open>Concrete inputs\<close>

text \<open>
  A small run: a validation partition of four examples of one category in one batch with
  two trailing padding positions, a test partition of two examples of another category
  in one batch, and a one-parameter model.
\<close>

definition vocab0 :: vocab where
  "vocab0 = \<lparr>stoi = (\<lambda>s. if s = PAD_TOKEN then 0 else if s = NA_TOKEN then 1 else 2)\<rparr>"

definition vocabs0 :: vocabs where
  "vocabs0 = (\<lambda>t. vocab0)"

definition helper0 :: helper_data where
  "helper0 = (\<lambda>i. if i < 6
                   then Some \<lparr>decode_length = 2, mention = (\<lambda>p. if p = 1 then Some 5 else None)\<rparr>
                   else None)"

definition helper1 :: helper_data where
  "helper1 = (\<lambda>i. if i = 3 then None else helper0 i)"

definition batchA :: batch where
  "batchA =
     \<lparr>b_id = [0, 1, 2, 3],
      b_input = \<lparr>ncols = 3, rows = [[7, 8, 9], [7, 8, 0], [7, 0, 0], [7, 8, 9]]\<rparr>,
      b_logical_form = \<lparr>ncols = 4, rows = [[2, 3, 0, 0], [2, 4, 0, 0], [2, 3, 0, 0], [2, 4, 0, 0]]\<rparr>,
      b_predicate_pointer = \<lparr>ncols = 4, rows = [[2, 5, 0, 0], [2, 5, 0, 0], [2, 6, 0, 0], [2, 6, 0, 0]]\<rparr>,
      b_type_pointer = \<lparr>ncols = 4, rows = [[2, 7, 0, 0], [2, 7, 0, 0], [2, 7, 0, 0], [2, 7, 0, 0]]\<rparr>,
      b_entity_pointer = \<lparr>ncols = 1, rows = [[1], [1], [1], [1]]\<rparr>\<rparr>"

definition batchB :: batch where
  "batchB =
     \<lparr>b_id = [4, 5],
      b_input = \<lparr>ncols = 5, rows = [[7, 8, 9, 7, 8], [7, 8, 9, 0, 0]]\<rparr>,
      b_logical_form = \<lparr>ncols = 3, rows = [[2, 3, 4], [2, 4, 0]]\<rparr>,
      b_predicate_pointer = \<lparr>ncols = 3, rows = [[2, 5, 5], [2, 5, 0]]\<rparr>,
      b_type_pointer = \<lparr>ncols = 3, rows = [[2, 7, 7], [2, 7, 0]]\<rparr>,
      b_entity_pointer = \<lparr>ncols = 1, rows = [[1], [1]]\<rparr>\<rparr>"

definition extern0 :: extern where
  "extern0 =
     \<lparr>forward = (\<lambda>m g inp lf ep.
        Inr (\<lambda>t. replicate (size0 lf * ncols lf) [real (ncols inp)])),
      cross_entropy = (\<lambda>scores y. hd scores),
      combine = sum_list,
      decoder_scores = (\<lambda>m x prefix t. if length prefix < 2 then [0, 1, 0] else [1, 0, 0]),
      max_decode_len = 5,
      end_symbol = 0\<rparr>"

definition model0 :: model_state where
  "model0 = \<lparr>parameters = [(''w'', ([2], [0, 0]))], training = True\<rparr>"

definition world0 :: world where
  "world0 = \<lparr>model = model0, grad_enabled = True, log = [], start_epoch = 0, results_file = None\<rparr>"

definition val_example :: "nat \<Rightarrow> example" where
  "val_example i =
     \<lparr>ex_id = i, ex_input = [7, 8, 9], question_type = ''Comparative'', gold = (\<lambda>t. Some [1, 1])\<rparr>"

definition test_example4 :: example where
  "test_example4 =
     \<lparr>ex_id = 4, ex_input = [7, 8, 9, 7, 8], question_type = ''Simple'', gold = (\<lambda>t. Some [1, 1])\<rparr>"

definition test_example5 :: example where
  "test_example5 =
     \<lparr>ex_id = 5, ex_input = [7, 8, 9], question_type = ''Simple'',
      gold = (\<lambda>t. if t = LOGICAL_FORM then Some [1, 2] else Some [1, 1])\<rparr>"

definition checkpoint0 :: checkpoint where
  "checkpoint0 = \<lparr>ck_epoch = Some 7, ck_state_dict = Some [(''w'', ([2], [1 / 2, 1 / 4]))]\<rparr>"

definition checkpoint_bad :: checkpoint where
  "checkpoint_bad = \<lparr>ck_epoch = Some 7, ck_state_dict = Some [(''w'', ([3], [1, 2, 3]))]\<rparr>"

definition env0 :: env where
  "env0 =
     \<lparr>args_task = MULTITASK,
      args_model_path = ''carton.pt'',
      args_batch_size = 4,
      ROOT_PATH = ''/models'',
      device_is_cpu = True,
      get_vocabs = vocabs0,
      val_data = map val_example [0, 1, 2, 3],
      test_data = [test_example4, test_example5],
      val_helper = helper0,
      test_helper = helper0,
      CARTON = (\<lambda>vs. model0),
      files = (\<lambda>p. if p = ''/models/carton.pt'' then Some checkpoint0 else None),
      BucketIterator = (\<lambda>exs n. if map ex_id exs = [4, 5] then [batchB] else [batchA]),
      externals = extern0\<rparr>"

definition env_bad :: env where
  "env_bad = env0\<lparr>files := (\<lambda>p. Some checkpoint_bad)\<rparr>"

text \<open>
  A model whose one parameter has no dimension, and a checkpoint that offers it a tensor
  of two elements.
\<close>

definition model_scalar :: model_state where
  "model_scalar = \<lparr>parameters = [(''w'', ([], [0]))], training = True\<rparr>"

definition checkpoint_scalar :: checkpoint where
  "checkpoint_scalar = \<lparr>ck_epoch = Some 7, ck_state_dict = Some [(''w'', ([2], [1, 2]))]\<rparr>"

definition env_scalar :: env where
  "env_scalar = env0\<lparr>CARTON := (\<lambda>vs. model_scalar), files := (\<lambda>p. Some checkpoint_scalar)\<rparr>"

definition env_missing :: env where
  "env_missing = env0\<lparr>val_helper := helper1\<rparr>"

definition final0 :: world where
  "final0 =
     \<lparr>model = \<lparr>parameters = [(''w'', ([2], [1 / 2, 1 / 4]))], training = False\<rparr>,
      grad_enabled = True,
      log = [Loading_checkpoint ''carton.pt'', Loaded_checkpoint ''carton.pt'' 7, Loaders_prepared,
             Validation_data 4, Test_data 2, Val_Loss 12, Test_Loss 20,
             Data_Results ''Test'', Question_type ''Simple'',
             Task_accuracy LOGICAL_FORM (1 / 2), Task_accuracy PREDICATE_POINTER 1,
             Task_accuracy TYPE_POINTER 1, Task_accuracy ENTITY_POINTER 1],
      start_epoch = 7,
      results_file =
        Some [(''Simple'',
               [(LOGICAL_FORM, \<lparr>matches = 1, total = 2\<rparr>),
                (PREDICATE_POINTER, \<lparr>matches = 2, total = 2\<rparr>),
                (TYPE_POINTER, \<lparr>matches = 2, total = 2\<rparr>),
                (ENTITY_POINTER, \<lparr>matches = 2, total = 2\<rparr>)])]\<rparr>"

text \<open>
  A scoring scenario: three examples of category \<open>A\<close>, two of them with the logical form
  that the decoder produces, and two examples of category \<open>B\<close> with another one.
\<close>

definition scenario_example :: "nat \<Rightarrow> string \<Rightarrow> nat list \<Rightarrow> example" where
  "scenario_example i c lf =
     \<lparr>ex_id = i, ex_input = [7, 8, 9], question_type = c,
      gold = (\<lambda>t. if t = LOGICAL_FORM then Some lf else Some [1, 1])\<rparr>"

definition scenario :: "example list" where
  "scenario =
     [scenario_example 0 ''A'' [1, 1], scenario_example 1 ''B'' [2], scenario_example 2 ''A'' [1, 2],
      scenario_example 3 ''A'' [1, 1], scenario_example 4 ''B'' [3, 1]]"

section \<open>The loss pass\<close>

subsection \<open>What the pass does to the state\<close>

lemma test_world:
  "snd (test ex t loader vs helper crit w) = w\<lparr>model := (model w)\<lparr>training := False\<rparr>\<rparr>"
  by (simp add: test_def Let_def split: sum.splits)

lemma test_pair:
  "test ex t loader vs helper crit w = (r, w') \<Longrightarrow>
   w' = w\<lparr>model := (model w)\<lparr>training := False\<rparr>\<rparr> \<and> fst (test ex t loader vs helper crit w) = r"
  using test_world [of ex t loader vs helper crit w] by auto

lemma test_fst:
  "fst (test ex t loader vs helper crit w) =
     (case test_loop ex t ((model w)\<lparr>training := False\<rparr>) False vs helper crit loader AverageMeter_new of
        Inl e \<Rightarrow> Inl e
      | Inr l \<Rightarrow> Inr (avg l))"
  by (simp add: test_def Let_def split: sum.splits)

subsection \<open>The running average\<close>

lemma test_loop_meter:
  assumes "\<forall>b\<in>set loader. \<not> isl (batch_loss ex t m g vs helper crit b)"
  shows "test_loop ex t m g vs helper crit loader losses =
         Inr \<lparr>meter_sum = meter_sum losses
                 + (\<Sum>p\<leftarrow>meter_updates ex t m g vs helper crit loader. fst p * real (snd p)),
              meter_count = meter_count losses
                 + (\<Sum>p\<leftarrow>meter_updates ex t m g vs helper crit loader. snd p)\<rparr>"
  using assms
proof (induction loader arbitrary: losses)
  case Nil
  then show ?case by (simp add: meter_updates_def)
next
  case (Cons b bs)
  from Cons.prems obtain l where l: "batch_loss ex t m g vs helper crit b = Inr l"
    by (cases "batch_loss ex t m g vs helper crit b") auto
  from Cons.prems have rest: "\<forall>b\<in>set bs. \<not> isl (batch_loss ex t m g vs helper crit b)"
    by simp
  show ?case
    using l Cons.IH [OF rest, of "update losses l (size0 (b_input b))"]
    by (simp add: meter_updates_def update_def add.assoc)
qed

text \<open>
  C1. When every batch of the loader yields a loss, the pass returns the mean of the batch
  losses weighted by the number of examples of each batch (the first dimension of its
  input), which is neither the padded length nor a count of batches.
\<close>

theorem test_loss_weighted_by_sample_count:
  assumes "\<forall>b\<in>set loader.
             \<not> isl (batch_loss ex t ((model w)\<lparr>training := False\<rparr>) False vs helper crit b)"
  shows "fst (test ex t loader vs helper crit w) =
         Inr (weighted_mean
                (meter_updates ex t ((model w)\<lparr>training := False\<rparr>) False vs helper crit loader))"
  using test_loop_meter [OF assms, of AverageMeter_new]
  by (simp add: test_def Let_def weighted_mean_def avg_def AverageMeter_new_def)

text \<open>
  A batch of four examples with two trailing padding positions and loss 3, then a batch
  of two examples and loss 5: the result is (3 * 4 + 5 * 2) / 6.
\<close>

theorem test_loss_weighted_by_sample_count_witness:
  "\<not> isl (batch_loss extern0 LOGICAL_FORM ((model world0)\<lparr>training := False\<rparr>) False vocabs0 helper0
            (SingleTaskLoss 0) batchA)
   \<and> \<not> isl (batch_loss extern0 LOGICAL_FORM ((model world0)\<lparr>training := False\<rparr>) False vocabs0 helper0
            (SingleTaskLoss 0) batchB)
   \<and> meter_updates extern0 LOGICAL_FORM ((model world0)\<lparr>training := False\<rparr>) False vocabs0 helper0
            (SingleTaskLoss 0) [batchA, batchB] = [(3, 4), (5, 2)]
   \<and> fst (test extern0 LOGICAL_FORM [batchA, batchB] vocabs0 helper0 (SingleTaskLoss 0) world0)
       = Inr (11 / 3)"
proof -
  have a: "\<not> isl (batch_loss extern0 LOGICAL_FORM ((model world0)\<lparr>training := False\<rparr>) False vocabs0
                    helper0 (SingleTaskLoss 0) batchA)"
    by code_simp
  have b: "\<not> isl (batch_loss extern0 LOGICAL_FORM ((model world0)\<lparr>training := False\<rparr>) False vocabs0
                    helper0 (SingleTaskLoss 0) batchB)"
    by code_simp
  have u: "meter_updates extern0 LOGICAL_FORM ((model world0)\<lparr>training := False\<rparr>) False vocabs0 helper0
             (SingleTaskLoss 0) [batchA, batchB] = [(3, 4), (5, 2)]"
    by code_simp
  have h: "\<forall>b\<in>set [batchA, batchB].
             \<not> isl (batch_loss extern0 LOGICAL_FORM ((model world0)\<lparr>training := False\<rparr>) False vocabs0
                      helper0 (SingleTaskLoss 0) b)"
    using a b by simp
  have "fst (test extern0 LOGICAL_FORM [batchA, batchB] vocabs0 helper0 (SingleTaskLoss 0) world0)
        = Inr (weighted_mean [(3, 4), (5, 2)])"
    using test_loss_weighted_by_sample_count [OF h] by (simp only: u)
  moreover have "weighted_mean [(3, 4), (5, 2)] = 11 / 3"
    by (simp add: weighted_mean_def)
  ultimately show ?thesis using a b u by simp
qed

subsection \<open>Modes\<close>

lemma call_multi_eval_only: "call_multi (eval_only ex) crit out tgt = call_multi ex crit out tgt"
  by (cases crit) (simp_all add: eval_only_def)

lemma call_single_eval_only: "call_single (eval_only ex) crit out tgt = call_single ex crit out tgt"
  by (cases crit) (simp_all add: eval_only_def)

lemma forward_eval_only:
  "forward (eval_only ex) (m\<lparr>training := False\<rparr>) False = forward ex (m\<lparr>training := False\<rparr>) False"
  by (simp add: eval_only_def)

lemma batch_loss_eval_only:
  "batch_loss (eval_only ex) t (m\<lparr>training := False\<rparr>) False vs helper crit b =
   batch_loss ex t (m\<lparr>training := False\<rparr>) False vs helper crit b"
  by (simp add: batch_loss_def Let_def call_multi_eval_only call_single_eval_only
        forward_eval_only split: sum.splits option.splits)

lemma test_loop_eval_only:
  "test_loop (eval_only ex) t (m\<lparr>training := False\<rparr>) False vs helper crit loader losses =
   test_loop ex t (m\<lparr>training := False\<rparr>) False vs helper crit loader losses"
  by (induction loader arbitrary: losses) (simp_all add: batch_loss_eval_only split: sum.splits)

text \<open>
  C2, as the code has it. Whether the pass returns a loss or fails, the gradient-recording
  mode is afterwards what it was before, the parameters, the log and the results file
  are untouched, and the pass calls the forward pass only in evaluation mode without
  gradient recording. The training flag of the model is cleared and stays cleared: the
  mode the model was in before the pass is not put back.
\<close>

theorem test_scoped_no_grad:
  "snd (test ex t loader vs helper crit w) = w\<lparr>model := (model w)\<lparr>training := False\<rparr>\<rparr>
   \<and> grad_enabled (snd (test ex t loader vs helper crit w)) = grad_enabled w
   \<and> parameters (model (snd (test ex t loader vs helper crit w))) = parameters (model w)
   \<and> training (model (snd (test ex t loader vs helper crit w))) = False
   \<and> test (eval_only ex) t loader vs helper crit w = test ex t loader vs helper crit w"
  by (simp add: test_world) (simp add: test_def Let_def test_loop_eval_only)

text \<open>
  The claim as stated fails: a model in training mode before the pass is in evaluation mode
  after it, on the normal exit and on the exit by an exception (here, an example id
  that is missing from the helper store).
\<close>

theorem test_restores_model_mode_counterexample:
  "training (model world0)
   \<and> fst (test extern0 LOGICAL_FORM [batchA] vocabs0 helper0 (SingleTaskLoss 0) world0) = Inr 3
   \<and> \<not> training (model (snd (test extern0 LOGICAL_FORM [batchA] vocabs0 helper0 (SingleTaskLoss 0) world0)))
   \<and> fst (test extern0 LOGICAL_FORM [batchA] vocabs0 helper1 (SingleTaskLoss 0) world0) = Inl AlignmentError
   \<and> \<not> training (model (snd (test extern0 LOGICAL_FORM [batchA] vocabs0 helper1 (SingleTaskLoss 0) world0)))"
  by code_simp

section \<open>The entity target\<close>

lemma entity_rows_missing:
  "i \<in> set ids \<Longrightarrow> helper i = None \<Longrightarrow> entity_rows ids helper v n = Inl AlignmentError"
  by (induction ids) (auto split: option.splits sum.splits)

lemma construct_entity_target_missing:
  "i \<in> set ids \<Longrightarrow> helper i = None \<Longrightarrow>
   construct_entity_target ids helper vs n = Inl AlignmentError"
  by (simp add: construct_entity_target_def entity_rows_missing)

lemma entity_rows_present:
  "\<forall>i\<in>set ids. helper i \<noteq> None \<Longrightarrow>
   entity_rows ids helper v n = Inr (map (\<lambda>i. entity_row v (the (helper i)) n) ids)"
  by (induction ids) auto

lemma entity_rows_shape:
  "entity_rows ids helper v n = Inr rs \<Longrightarrow> length rs = length ids \<and> (\<forall>r\<in>set rs. length r = n)"
  by (induction ids arbitrary: rs) (auto simp: entity_row_def split: option.splits sum.splits)

lemma construct_entity_target_shape:
  "construct_entity_target ids helper vs n = Inr tgt \<Longrightarrow>
   ncols tgt = n \<and> size0 tgt = length ids \<and> wf_tensor tgt"
  by (auto simp: construct_entity_target_def size0_def wf_tensor_def list_all_iff
           split: sum.splits dest: entity_rows_shape)

lemma entity_row_nth:
  "p < n \<Longrightarrow> entity_row v h n ! p =
     (if p < decode_length h
      then (case mention h p of Some c \<Rightarrow> c | None \<Rightarrow> stoi v NA_TOKEN)
      else stoi v PAD_TOKEN)"
  by (simp add: entity_row_def)

text \<open>
  C6. When every example id of the batch is in the helper store, the entity target is
  built, with one row per example and the target length as its time dimension, and for
  every example and every position below the target length: within the example's decode
  length the value is the context index of the mention at that position, or the
  no-entity index where the helper record has no mention; from the decode length on it
  is the PAD index.
\<close>

theorem entity_target_values:
  assumes "\<forall>i\<in>set ids. helper i \<noteq> None"
  shows "\<exists>tgt. construct_entity_target ids helper vs n = Inr tgt
           \<and> ncols tgt = n \<and> length (rows tgt) = length ids \<and> wf_tensor tgt
           \<and> (\<forall>k<length ids. \<forall>p<n. \<forall>h. helper (ids ! k) = Some h \<longrightarrow>
                (\<forall>c. p < decode_length h \<and> mention h p = Some c \<longrightarrow> rows tgt ! k ! p = c)
              \<and> (p < decode_length h \<and> mention h p = None \<longrightarrow>
                   rows tgt ! k ! p = stoi (vs ENTITY_POINTER) NA_TOKEN)
              \<and> (decode_length h \<le> p \<longrightarrow> rows tgt ! k ! p = stoi (vs ENTITY_POINTER) PAD_TOKEN))"
  using assms
  by (simp add: construct_entity_target_def entity_rows_present wf_tensor_def list_all_iff
        entity_row_nth)
     (simp add: entity_row_def)

text \<open>
  The four examples of the first batch, each with two decode positions and a mention of
  context index 5 at position 1, and a target length of 4.
\<close>

theorem entity_target_values_witness:
  "list_all (\<lambda>i. helper0 i \<noteq> None) (b_id batchA)
   \<and> construct_entity_target (b_id batchA) helper0 vocabs0 4 =
       Inr \<lparr>ncols = 4, rows = [[1, 5, 0, 0], [1, 5, 0, 0], [1, 5, 0, 0], [1, 5, 0, 0]]\<rparr>
   \<and> rows (projr (construct_entity_target (b_id batchA) helper0 vocabs0 4)) ! 2 ! 1 = 5
   \<and> rows (projr (construct_entity_target (b_id batchA) helper0 vocabs0 4)) ! 2 ! 0
       = stoi (vocabs0 ENTITY_POINTER) NA_TOKEN
   \<and> rows (projr (construct_entity_target (b_id batchA) helper0 vocabs0 4)) ! 2 ! 3
       = stoi (vocabs0 ENTITY_POINTER) PAD_TOKEN"
proof -
  let ?h = "\<lparr>decode_length = 2, mention = (\<lambda>p. if p = (1::nat) then Some (5::int) else None)\<rparr>"
  have present: "list_all (\<lambda>i. helper0 i \<noteq> None) (b_id batchA)"
    by code_simp
  then have hyp: "\<forall>i\<in>set (b_id batchA). helper0 i \<noteq> None"
    by (simp add: list_all_iff)
  have val: "construct_entity_target (b_id batchA) helper0 vocabs0 4 =
       Inr \<lparr>ncols = 4, rows = [[1, 5, 0, 0], [1, 5, 0, 0], [1, 5, 0, 0], [1, 5, 0, 0]]\<rparr>"
    by code_simp
  have len: "length (b_id batchA) = 4" and at2: "helper0 (b_id batchA ! 2) = Some ?h"
    by (simp_all add: batchA_def helper0_def)
  from entity_target_values [OF hyp, of vocabs0 4] obtain tgt where
    tgt: "construct_entity_target (b_id batchA) helper0 vocabs0 4 = Inr tgt"
    and vals: "\<forall>k<length (b_id batchA). \<forall>p<4. \<forall>h. helper0 (b_id batchA ! k) = Some h \<longrightarrow>
                (\<forall>c. p < decode_length h \<and> mention h p = Some c \<longrightarrow> rows tgt ! k ! p = c)
              \<and> (p < decode_length h \<and> mention h p = None \<longrightarrow>
                   rows tgt ! k ! p = stoi (vocabs0 ENTITY_POINTER) NA_TOKEN)
              \<and> (decode_length h \<le> p \<longrightarrow> rows tgt ! k ! p = stoi (vocabs0 ENTITY_POINTER) PAD_TOKEN)"
    by blast
  have "rows tgt ! 2 ! 1 = 5"
    using vals [rule_format, of 2 1 ?h] len at2 by simp
  moreover have "rows tgt ! 2 ! 0 = stoi (vocabs0 ENTITY_POINTER) NA_TOKEN"
    using vals [rule_format, of 2 0 ?h] len at2 by simp
  moreover have "rows tgt ! 2 ! 3 = stoi (vocabs0 ENTITY_POINTER) PAD_TOKEN"
    using vals [rule_format, of 2 3 ?h] len at2 by simp
  ultimately show ?thesis
    using present val tgt by simp
qed

section \<open>Failing batches\<close>

lemma batch_loss_missing:
  "i \<in> set (b_id b) \<Longrightarrow> helper i = None \<Longrightarrow>
   batch_loss ex t m g vs helper crit b = Inl AlignmentError"
  by (simp add: batch_loss_def Let_def construct_entity_target_missing)

lemma test_loop_append:
  "test_loop ex t m g vs helper crit (pre @ post) losses =
     (case test_loop ex t m g vs helper crit pre losses of
        Inl e \<Rightarrow> Inl e
      | Inr l \<Rightarrow> test_loop ex t m g vs helper crit post l)"
  by (induction pre arbitrary: losses) (simp_all split: sum.splits)

lemma test_loop_succeeds:
  "\<forall>b\<in>set pre. \<not> isl (batch_loss ex t m g vs helper crit b) \<Longrightarrow>
   \<not> isl (test_loop ex t m g vs helper crit pre losses)"
  by (induction pre arbitrary: losses) (auto split: sum.splits)

lemma test_loop_failing_batch:
  "b \<in> set loader \<Longrightarrow> isl (batch_loss ex t m g vs helper crit b) \<Longrightarrow>
   isl (test_loop ex t m g vs helper crit loader losses)"
  by (induction loader arbitrary: losses) (auto split: sum.splits)

lemma test_loop_first_failure:
  assumes "\<forall>b'\<in>set pre. \<not> isl (batch_loss ex t m g vs helper crit b')"
    and "batch_loss ex t m g vs helper crit b = Inl e"
  shows "test_loop ex t m g vs helper crit (pre @ b # post) losses = Inl e"
  using test_loop_succeeds [OF assms(1), of losses] assms(2)
  by (cases "test_loop ex t m g vs helper crit pre losses") (simp_all add: test_loop_append)

lemma test_failing_batch:
  "b \<in> set loader \<Longrightarrow> isl (batch_loss ex t ((model w)\<lparr>training := False\<rparr>) False vs helper crit b) \<Longrightarrow>
   isl (fst (test ex t loader vs helper crit w))"
  using test_loop_failing_batch [of b loader ex t "(model w)\<lparr>training := False\<rparr>" False vs helper crit
      AverageMeter_new]
  by (auto simp: test_fst split: sum.splits)

lemma test_missing_id:
  assumes "b \<in> set loader" and "i \<in> set (b_id b)" and "helper i = None"
  shows "fst (test ex t loader vs helper crit w) \<noteq> Inr v"
proof -
  have "batch_loss ex t ((model w)\<lparr>training := False\<rparr>) False vs helper crit b = Inl AlignmentError"
    using assms(2,3) by (rule batch_loss_missing)
  then have "isl (batch_loss ex t ((model w)\<lparr>training := False\<rparr>) False vs helper crit b)"
    by simp
  with assms(1) have "isl (fst (test ex t loader vs helper crit w))"
    by (rule test_failing_batch)
  then show ?thesis by auto
qed

section \<open>The orchestrator\<close>

subsection \<open>Runs that abort\<close>

lemma main_failure_writes_nothing:
  "isl (fst (main env w0)) \<Longrightarrow> results_file (snd (main env w0)) = results_file w0"
  by (auto simp: main_def Let_def info_def
           split: sum.splits option.splits prod.splits if_splits dest!: test_pair)

lemma main_aborts_val:
  assumes "\<And>w v. fst (test (externals env) (args_task env) (val_loader env) (get_vocabs env)
                     (val_helper env) (make_criterion (args_task env) (get_vocabs env)) w) \<noteq> Inr v"
  shows "isl (fst (main env w0))"
  using assms
  by (auto simp: main_def Let_def val_loader_def
           split: sum.splits option.splits prod.splits if_splits dest!: test_pair)

lemma main_aborts_test:
  assumes "\<And>w v. fst (test (externals env) (args_task env) (test_loader env) (get_vocabs env)
                     (test_helper env) (make_criterion (args_task env) (get_vocabs env)) w) \<noteq> Inr v"
  shows "isl (fst (main env w0))"
  using assms
  by (auto simp: main_def Let_def test_loader_def
           split: sum.splits option.splits prod.splits if_splits dest!: test_pair)

text \<open>
  C4. If an example id of a batch is missing from the helper store, building the entity
  target fails with \<open>AlignmentError\<close>; the loss pass over a loader that contains the batch
  fails, with \<open>AlignmentError\<close> when the batches before it yield their losses; and when
  the batch is in the validation loader or in the test loader of a run, with the helper
  store of that partition, the run fails and writes no results.
\<close>

theorem missing_id_aborts_run:
  assumes "i \<in> set (b_id b)" and "helper i = None"
  shows "construct_entity_target (b_id b) helper vs n = Inl AlignmentError
     \<and> ((\<forall>b'\<in>set pre. \<not> isl (batch_loss ex t ((model w)\<lparr>training := False\<rparr>) False vs helper crit b'))
          \<longrightarrow> fst (test ex t (pre @ b # post) vs helper crit w) = Inl AlignmentError)
     \<and> (b \<in> set loader \<longrightarrow> isl (fst (test ex t loader vs helper crit w)))
     \<and> (b \<in> set (val_loader env) \<and> helper = val_helper env
          \<or> b \<in> set (test_loader env) \<and> helper = test_helper env
        \<longrightarrow> isl (fst (main env w0)) \<and> results_file (snd (main env w0)) = results_file w0)"
proof -
  have loss: "\<And>ex t m g vs crit. batch_loss ex t m g vs helper crit b = Inl AlignmentError"
    using assms by (rule batch_loss_missing)
  have "construct_entity_target (b_id b) helper vs n = Inl AlignmentError"
    using assms by (rule construct_entity_target_missing)
  moreover have "fst (test ex t (pre @ b # post) vs helper crit w) = Inl AlignmentError"
    if "\<forall>b'\<in>set pre. \<not> isl (batch_loss ex t ((model w)\<lparr>training := False\<rparr>) False vs helper crit b')"
    using test_loop_first_failure [OF that loss, of post AverageMeter_new]
    by (simp add: test_fst)
  moreover have "isl (fst (test ex t loader vs helper crit w))" if "b \<in> set loader"
    using that by (rule test_failing_batch) (simp add: loss)
  moreover have "isl (fst (main env w0)) \<and> results_file (snd (main env w0)) = results_file w0"
    if "b \<in> set (val_loader env) \<and> helper = val_helper env
        \<or> b \<in> set (test_loader env) \<and> helper = test_helper env"
  proof -
    from that have "isl (fst (main env w0))"
    proof
      assume "b \<in> set (val_loader env) \<and> helper = val_helper env"
      then show ?thesis
        using assms by (intro main_aborts_val test_missing_id [where b = b and i = i]) simp_all
    next
      assume "b \<in> set (test_loader env) \<and> helper = test_helper env"
      then show ?thesis
        using assms by (intro main_aborts_test test_missing_id [where b = b and i = i]) simp_all
    qed
    then show ?thesis by (simp add: main_failure_writes_nothing)
  qed
  ultimately show ?thesis by blast
qed

text \<open>
  Example id 3 of the validation batch is missing from the helper store: the pass over
  the test batch and then the validation batch fails at the second, and so does the run.
\<close>

theorem missing_id_aborts_run_witness:
  "3 \<in> set (b_id batchA) \<and> helper1 3 = None
   \<and> \<not> isl (batch_loss extern0 MULTITASK ((model world0)\<lparr>training := False\<rparr>) False vocabs0 helper1
              (MultiTaskLoss 0) batchB)
   \<and> batchA \<in> set (val_loader env_missing) \<and> helper1 = val_helper env_missing
   \<and> construct_entity_target (b_id batchA) helper1 vocabs0 4 = Inl AlignmentError
   \<and> fst (test extern0 MULTITASK ([batchB] @ batchA # []) vocabs0 helper1 (MultiTaskLoss 0) world0)
       = Inl AlignmentError
   \<and> isl (fst (main env_missing world0))
   \<and> results_file (snd (main env_missing world0)) = results_file world0"
proof -
  have h1: "3 \<in> set (b_id batchA)" by (simp add: batchA_def)
  have h2: "helper1 3 = None" by (simp add: helper1_def)
  have pre: "\<not> isl (batch_loss extern0 MULTITASK ((model world0)\<lparr>training := False\<rparr>) False vocabs0
                      helper1 (MultiTaskLoss 0) batchB)"
    by code_simp
  have inv: "batchA \<in> set (val_loader env_missing)"
    by (simp add: val_loader_def env_missing_def env0_def val_example_def)
  have hv: "helper1 = val_helper env_missing"
    by (simp add: env_missing_def)
  note inst = missing_id_aborts_run [where i = 3 and b = batchA and helper = helper1
      and vs = vocabs0 and n = 4 and pre = "[batchB]" and post = "[]" and ex = extern0
      and t = MULTITASK and w = world0 and crit = "MultiTaskLoss 0" and env = env_missing
      and ?w0.0 = world0 and loader = "[batchA]", OF h1 h2]
  from inst have "construct_entity_target (b_id batchA) helper1 vocabs0 4 = Inl AlignmentError"
    by blast
  moreover from inst pre
  have "fst (test extern0 MULTITASK ([batchB] @ batchA # []) vocabs0 helper1 (MultiTaskLoss 0) world0)
          = Inl AlignmentError"
    by simp
  moreover from inst inv hv
  have "isl (fst (main env_missing world0))
          \<and> results_file (snd (main env_missing world0)) = results_file world0"
    by blast
  ultimately show ?thesis using h1 h2 pre inv hv by blast
qed

subsection \<open>The checkpoint\<close>

lemma adapt_error: "adapt p q = Inl e \<Longrightarrow> e = IndexError"
  by (auto simp: adapt_def split: if_splits)

lemma load_params_outcome:
  "load_params own sd = (ps, exn, bad) \<Longrightarrow>
   exn = (if raises_index_error own sd then Some IndexError else None)
   \<and> (\<not> raises_index_error own sd \<longrightarrow>
        (bad \<longleftrightarrow> \<not> list_all (\<lambda>(k, p). case map_of sd k of None \<Rightarrow> False | Some q \<Rightarrow> fits p q) own))"
proof (induction own arbitrary: ps exn bad)
  case Nil
  then show ?case by (simp add: raises_index_error_def)
next
  case (Cons a own)
  obtain k p where a: "a = (k, p)" by (cases a)
  obtain ps' exn' bad' where rest: "load_params own sd = (ps', exn', bad')"
    by (cases "load_params own sd")
  note ih = Cons.IH [OF rest]
  show ?case
  proof (cases "map_of sd k")
    case None
    with Cons.prems a rest ih show ?thesis
      by (auto simp: raises_index_error_def)
  next
    case (Some q)
    show ?thesis
    proof (cases "adapt p q")
      case (Inl e)
      with Cons.prems a Some adapt_error [OF Inl] show ?thesis
        by (auto simp: raises_index_error_def)
    next
      case (Inr q')
      with Cons.prems a Some rest ih show ?thesis
        by (auto simp: raises_index_error_def fits_def split: if_splits)
    qed
  qed
qed

lemma index_error_incompatible:
  assumes "raises_index_error own sd"
  shows "\<not> compatible own sd"
proof -
  from assms obtain k p q where
    own: "(k, p) \<in> set own" and sd: "map_of sd k = Some q" and err: "isl (adapt p q)"
    by (auto simp: raises_index_error_def list_ex_iff split: option.splits)
  from sd err have "\<not> (case map_of sd k of None \<Rightarrow> False | Some q \<Rightarrow> fits p q)"
    by (auto simp: fits_def isl_def)
  with own show ?thesis
    by (auto simp: compatible_def list_all_iff)
qed

lemma load_state_dict_result:
  "fst (load_state_dict m sd) =
     (if raises_index_error (parameters m) sd then Inl IndexError
      else if compatible (parameters m) sd then Inr ()
      else Inl RuntimeError)"
proof -
  obtain ps exn bad where run: "load_params (parameters m) sd = (ps, exn, bad)"
    by (cases "load_params (parameters m) sd")
  from load_params_outcome [OF run] run show ?thesis
    by (auto simp: load_state_dict_def Let_def compatible_def)
qed

lemma load_state_dict_training: "training (snd (load_state_dict m sd)) = training m"
  by (simp add: load_state_dict_def Let_def split: prod.splits option.splits)

text \<open>
  C5, as the code has it. The run reads the checkpoint, takes its epoch and its
  parameters, and hands the parameters to the strict loading of the tensor library,
  which accepts exactly the states that are compatible in the sense defined above.
  When the library does not accept them for the model built from the vocabularies, the
  run fails with the library's error (\<open>RuntimeError\<close>, or \<open>IndexError\<close> when a parameter
  of no dimension is offered an empty tensor) in the state that the loading itself
  produced: one log line, the epoch, the parameters that could be copied; the training
  flag, the gradient mode and the results file are as before and no loss or score is
  logged, so no evaluation work was done.
\<close>

theorem incompatible_checkpoint_aborts:
  assumes "files env (checkpoint_path env) = Some ck"
    and "ck_epoch ck = Some ep"
    and "ck_state_dict ck = Some sd"
    and "\<not> compatible (parameters (CARTON env (get_vocabs env))) sd"
  shows "main env w0 =
     (Inl (if raises_index_error (parameters (CARTON env (get_vocabs env))) sd
           then IndexError else RuntimeError),
      w0\<lparr>model := snd (load_state_dict (CARTON env (get_vocabs env)) sd),
         log := log w0 @ [Loading_checkpoint (args_model_path env)],
         start_epoch := ep\<rparr>)
     \<and> training (snd (load_state_dict (CARTON env (get_vocabs env)) sd))
         = training (CARTON env (get_vocabs env))
     \<and> (fst (load_state_dict m2 sd2) = Inr ()) = compatible (parameters m2) sd2"
proof -
  let ?M = "CARTON env (get_vocabs env)"
  have accepts: "(fst (load_state_dict m2 sd2) = Inr ()) = compatible (parameters m2) sd2"
    using index_error_incompatible [of "parameters m2" sd2]
    by (auto simp: load_state_dict_result)
  obtain r m' where run: "load_state_dict ?M sd = (r, m')"
    by (cases "load_state_dict ?M sd")
  from load_state_dict_result [of ?M sd] assms(4) run
  have r: "r = Inl (if raises_index_error (parameters ?M) sd then IndexError else RuntimeError)"
    by (simp split: if_splits)
  have "main env w0 =
     (Inl (if raises_index_error (parameters ?M) sd then IndexError else RuntimeError),
      w0\<lparr>model := m', log := log w0 @ [Loading_checkpoint (args_model_path env)], start_epoch := ep\<rparr>)"
    using assms(1-3) run r
    by (simp add: main_def Let_def torch_load_def checkpoint_path_def info_def)
  with run accepts show ?thesis
    by (simp add: load_state_dict_training [of ?M sd, unfolded run, simplified])
qed

text \<open>A checkpoint whose only parameter has three values where the model's has two.\<close>

theorem incompatible_checkpoint_aborts_witness:
  "files env_bad (checkpoint_path env_bad) = Some checkpoint_bad
   \<and> ck_epoch checkpoint_bad = Some 7
   \<and> ck_state_dict checkpoint_bad = Some [(''w'', ([3], [1, 2, 3]))]
   \<and> \<not> compatible (parameters (CARTON env_bad (get_vocabs env_bad))) [(''w'', ([3], [1, 2, 3]))]
   \<and> main env_bad world0 =
       (Inl RuntimeError, world0\<lparr>log := [Loading_checkpoint ''carton.pt''], start_epoch := 7\<rparr>)"
proof -
  let ?sd = "[(''w'', ([3::nat], [1, 2, 3::real]))]"
  have h1: "files env_bad (checkpoint_path env_bad) = Some checkpoint_bad"
    by (simp add: env_bad_def)
  have h2: "ck_epoch checkpoint_bad = Some 7"
    by (simp add: checkpoint_bad_def)
  have h3: "ck_state_dict checkpoint_bad = Some ?sd"
    by (simp add: checkpoint_bad_def)
  have h4: "\<not> compatible (parameters (CARTON env_bad (get_vocabs env_bad))) ?sd"
    by code_simp
  have no_index: "\<not> raises_index_error (parameters (CARTON env_bad (get_vocabs env_bad))) ?sd"
    by code_simp
  have loaded: "snd (load_state_dict (CARTON env_bad (get_vocabs env_bad)) ?sd) = model0"
    by code_simp
  have args: "args_model_path env_bad = ''carton.pt''" and w: "world0\<lparr>model := model0\<rparr> = world0"
    by (simp_all add: env_bad_def env0_def world0_def)
  have "main env_bad world0 =
       (Inl RuntimeError, world0\<lparr>log := [Loading_checkpoint ''carton.pt''], start_epoch := 7\<rparr>)"
    using incompatible_checkpoint_aborts [OF h1 h2 h3 h4, of world0]
    by (simp add: no_index loaded args) (simp add: world0_def)
  then show ?thesis using h1 h2 h3 h4 by blast
qed

text \<open>
  The claim as stated fails on both counts. A checkpoint that offers a tensor of two
  elements to a parameter of no dimension does not have the model's structure, yet it
  is loaded (the parameter becomes the first element) and the run goes on to compute
  both losses and the scores. And where the loading does fail, the error is the
  library's \<open>RuntimeError\<close>, not a \<open>CheckpointLoadError\<close>.
\<close>

theorem checkpoint_mismatch_counterexample:
  "parameters (CARTON env_scalar (get_vocabs env_scalar)) = [(''w'', ([], [0]))]
   \<and> ck_state_dict checkpoint_scalar = Some [(''w'', ([2], [1, 2]))]
   \<and> fst (main env_scalar world0) = Inr ()
   \<and> parameters (model (snd (main env_scalar world0))) = [(''w'', ([], [1]))]
   \<and> log (snd (main env_scalar world0)) = log final0
   \<and> fst (main env_bad world0) = Inl RuntimeError
   \<and> fst (main env_bad world0) \<noteq> Inl CheckpointLoadError"
  by code_simp

subsection \<open>Runs that finish\<close>

lemma reported_partitions_append:
  "reported_partitions (xs @ ys) = reported_partitions xs @ reported_partitions ys"
  by (simp add: reported_partitions_def)

lemma reported_partitions_Cons:
  "reported_partitions (m # ms) =
     (case m of Data_Results p \<Rightarrow> [p] | _ \<Rightarrow> []) @ reported_partitions ms"
  by (simp add: reported_partitions_def)

lemma reported_partitions_tasks:
  "reported_partitions (map (\<lambda>(t, r). Task_accuracy t (accuracy r)) qres) = []"
  by (induction qres) (auto simp: reported_partitions_def)

lemma reported_partitions_categories:
  "reported_partitions
     (concat (map (\<lambda>(qt, qres). Question_type qt # map (\<lambda>(t, r). Task_accuracy t (accuracy r)) qres)
        results)) = []"
proof (induction results)
  case Nil
  show ?case by (simp add: reported_partitions_def)
next
  case (Cons a results)
  obtain qt qres where a: "a = (qt, qres)" by (cases a)
  from Cons.IH a show ?case
    by (simp add: reported_partitions_Cons reported_partitions_append reported_partitions_tasks)
qed

lemma reported_partitions_report:
  "reported_partitions (report [(p, results)]) = [p]"
  using reported_partitions_categories [of results]
  by (simp add: report_def reported_partitions_def)

lemma main_success:
  assumes "main env w0 = (Inr (), w')"
  shows "\<exists>ep vl tl results.
           fst (test (externals env) (args_task env) (val_loader env) (get_vocabs env) (val_helper env)
                  (make_criterion (args_task env) (get_vocabs env)) w') = Inr vl
         \<and> fst (test (externals env) (args_task env) (test_loader env) (get_vocabs env) (test_helper env)
                  (make_criterion (args_task env) (get_vocabs env)) w') = Inr tl
         \<and> data_score (test_data env) (test_helper env)
              (Predictor (externals env) (model w') (get_vocabs env)) = Inr results
         \<and> results_file w' = Some results
         \<and> log w' = log w0 @
              [Loading_checkpoint (args_model_path env), Loaded_checkpoint (args_model_path env) ep,
               Loaders_prepared, Validation_data (length (val_data env)), Test_data (length (test_data env)),
               Val_Loss vl, Test_Loss tl] @ report [(''Test'', results)]"
  using assms
  apply (simp add: main_def Let_def split: sum.splits option.splits prod.splits if_splits)
  apply (auto simp: val_loader_def test_loader_def info_def test_fst dest!: test_pair)
  done

text \<open>
  C3, as the code has it. A run that finishes has loaded the checkpoint, computed the
  loss over the validation loader and over the test loader, scored the examples of the
  test partition only, written that table, and logged the two losses and the results of
  the one partition \<open>Test\<close>. The validation partition is not scored.
\<close>

theorem main_scores_test_partition_only:
  assumes "main env w0 = (Inr (), w')"
  shows "\<exists>ep vl tl results.
           fst (test (externals env) (args_task env) (val_loader env) (get_vocabs env) (val_helper env)
                  (make_criterion (args_task env) (get_vocabs env)) w') = Inr vl
         \<and> fst (test (externals env) (args_task env) (test_loader env) (get_vocabs env) (test_helper env)
                  (make_criterion (args_task env) (get_vocabs env)) w') = Inr tl
         \<and> data_score (test_data env) (test_helper env)
              (Predictor (externals env) (model w') (get_vocabs env)) = Inr results
         \<and> results_file w' = Some results
         \<and> log w' = log w0 @
              [Loading_checkpoint (args_model_path env), Loaded_checkpoint (args_model_path env) ep,
               Loaders_prepared, Validation_data (length (val_data env)), Test_data (length (test_data env)),
               Val_Loss vl, Test_Loss tl] @ report [(''Test'', results)]
         \<and> reported_partitions (log w') = reported_partitions (log w0) @ [''Test'']"
proof -
  from main_success [OF assms] obtain ep vl tl results where
    a: "fst (test (externals env) (args_task env) (val_loader env) (get_vocabs env) (val_helper env)
                  (make_criterion (args_task env) (get_vocabs env)) w') = Inr vl"
    and b: "fst (test (externals env) (args_task env) (test_loader env) (get_vocabs env) (test_helper env)
                  (make_criterion (args_task env) (get_vocabs env)) w') = Inr tl"
    and c: "data_score (test_data env) (test_helper env)
              (Predictor (externals env) (model w') (get_vocabs env)) = Inr results"
    and d: "results_file w' = Some results"
    and e: "log w' = log w0 @
              [Loading_checkpoint (args_model_path env), Loaded_checkpoint (args_model_path env) ep,
               Loaders_prepared, Validation_data (length (val_data env)), Test_data (length (test_data env)),
               Val_Loss vl, Test_Loss tl] @ report [(''Test'', results)]"
    by blast
  have "reported_partitions (log w') = reported_partitions (log w0) @ [''Test'']"
    unfolding e reported_partitions_append reported_partitions_report
    by (simp add: reported_partitions_def)
  with a b c d e show ?thesis by blast
qed

theorem main_scores_test_partition_only_witness:
  "main env0 world0 = (Inr (), final0)
   \<and> (\<exists>ep vl tl results.
           fst (test (externals env0) (args_task env0) (val_loader env0) (get_vocabs env0) (val_helper env0)
                  (make_criterion (args_task env0) (get_vocabs env0)) final0) = Inr vl
         \<and> fst (test (externals env0) (args_task env0) (test_loader env0) (get_vocabs env0) (test_helper env0)
                  (make_criterion (args_task env0) (get_vocabs env0)) final0) = Inr tl
         \<and> data_score (test_data env0) (test_helper env0)
              (Predictor (externals env0) (model final0) (get_vocabs env0)) = Inr results
         \<and> results_file final0 = Some results
         \<and> log final0 = log world0 @
              [Loading_checkpoint (args_model_path env0), Loaded_checkpoint (args_model_path env0) ep,
               Loaders_prepared, Validation_data (length (val_data env0)), Test_data (length (test_data env0)),
               Val_Loss vl, Test_Loss tl] @ report [(''Test'', results)]
         \<and> reported_partitions (log final0) = reported_partitions (log world0) @ [''Test''])"
proof -
  have run: "main env0 world0 = (Inr (), final0)"
    by code_simp
  from run main_scores_test_partition_only [OF run] show ?thesis
    by (rule conjI)
qed

text \<open>
  The claim as stated fails: in a run that finishes, with four validation examples of the
  category \<open>Comparative\<close> and two test examples of the category \<open>Simple\<close>, the only
  partition reported is \<open>Test\<close> and the only category of the table is \<open>Simple\<close>.
\<close>

theorem main_scores_validation_counterexample:
  "fst (main env0 world0) = Inr ()
   \<and> map question_type (val_data env0) = [''Comparative'', ''Comparative'', ''Comparative'', ''Comparative'']
   \<and> map question_type (test_data env0) = [''Simple'', ''Simple'']
   \<and> reported_partitions (log (snd (main env0 world0))) = [''Test'']
   \<and> results_file (snd (main env0 world0)) =
        Some [(''Simple'',
               [(LOGICAL_FORM, \<lparr>matches = 1, total = 2\<rparr>),
                (PREDICATE_POINTER, \<lparr>matches = 2, total = 2\<rparr>),
                (TYPE_POINTER, \<lparr>matches = 2, total = 2\<rparr>),
                (ENTITY_POINTER, \<lparr>matches = 2, total = 2\<rparr>)])]"
  by code_simp

section \<open>The scorer\<close>

lemma collect_map_Inr: "collect (map (\<lambda>x. Inr (f x)) xs) = Inr (map f xs)"
  by (induction xs) simp_all

lemma score_example_present:
  assumes "\<forall>t\<in>set tasks. gold e t \<noteq> None"
  shows "score_example d e = Inr (map (\<lambda>t. (t, gold e t = Some (d t))) tasks)"
proof -
  have eq: "map (\<lambda>t. case gold e t of None \<Rightarrow> Inl MissingGoldError
                   | Some g \<Rightarrow> Inr (t, exact_match (d t) g)) tasks
        = map (\<lambda>t. Inr (t, gold e t = Some (d t))) tasks"
    using assms by (intro map_cong) (auto simp: exact_match_def split: option.splits)
  show ?thesis
    unfolding score_example_def eq by (rule collect_map_Inr)
qed

lemma fold_record_task_lookup:
  "distinct ts \<Longrightarrow>
   map_of (fold record_task (map (\<lambda>t. (t, ok t)) ts) row) t =
     (if t \<in> set ts
      then Some (bump (ok t) (case map_of row t of None \<Rightarrow> score_zero | Some s \<Rightarrow> s))
      else map_of row t)"
  by (induction ts arbitrary: row) (auto simp: record_task_def update_conv')

lemma fold_record_task_keys:
  "fst ` set (fold record_task (map (\<lambda>t. (t, ok t)) ts) row) = set ts \<union> fst ` set row"
  by (induction ts arbitrary: row) (auto simp: record_task_def dom_update)

lemma distinct_tasks: "distinct tasks"
  by (simp add: tasks_def)

lemma record_scores_cell:
  "t \<in> set tasks \<Longrightarrow>
   cell (record_scores tbl c (map (\<lambda>t. (t, ok t)) tasks)) c' t =
     (if c' = c then bump (ok t) (cell tbl c t) else cell tbl c' t)"
  by (simp add: cell_def record_scores_def update_conv' fold_record_task_lookup distinct_tasks
           split: option.splits)

lemma record_scores_keys:
  "fst ` set (record_scores tbl c scored) = insert c (fst ` set tbl)"
  by (simp add: record_scores_def dom_update)

lemma record_scores_distinct:
  "distinct (map fst tbl) \<Longrightarrow> distinct (map fst (record_scores tbl c scored))"
  by (simp add: record_scores_def distinct_update)

lemma record_scores_complete:
  "complete_rows tbl \<Longrightarrow> complete_rows (record_scores tbl c (map (\<lambda>t. (t, ok t)) tasks))"
  by (auto simp: complete_rows_def record_scores_def update_conv' fold_record_task_keys
           split: if_splits)

lemma score_loop_counts:
  assumes "\<forall>e\<in>set exs. \<forall>t\<in>set tasks. gold e t \<noteq> None"
  shows "\<exists>tbl'. score_loop predictor exs tbl = Inr tbl'
           \<and> fst ` set tbl' = fst ` set tbl \<union> question_type ` set exs
           \<and> (distinct (map fst tbl) \<longrightarrow> distinct (map fst tbl'))
           \<and> (complete_rows tbl \<longrightarrow> complete_rows tbl')
           \<and> (\<forall>c. \<forall>t\<in>set tasks.
                 matches (cell tbl' c t) = matches (cell tbl c t) + n_matches predictor c t exs
               \<and> total (cell tbl' c t) = total (cell tbl c t) + n_examples c exs)"
  using assms
proof (induction exs arbitrary: tbl)
  case Nil
  show ?case by (simp add: n_matches_def n_examples_def)
next
  case (Cons e exs)
  let ?scored = "map (\<lambda>t. (t, gold e t = Some (predictor e t))) tasks"
  let ?tbl1 = "record_scores tbl (question_type e) ?scored"
  from Cons.prems have se: "score_example (predictor e) e = Inr ?scored"
    by (simp add: score_example_present)
  from Cons.prems have rest: "\<forall>e\<in>set exs. \<forall>t\<in>set tasks. gold e t \<noteq> None"
    by simp
  from Cons.IH [OF rest, of ?tbl1] obtain tbl' where
    run: "score_loop predictor exs ?tbl1 = Inr tbl'"
    and keys: "fst ` set tbl' = fst ` set ?tbl1 \<union> question_type ` set exs"
    and dist: "distinct (map fst ?tbl1) \<longrightarrow> distinct (map fst tbl')"
    and compl: "complete_rows ?tbl1 \<longrightarrow> complete_rows tbl'"
    and cnt: "\<forall>c. \<forall>t\<in>set tasks.
                 matches (cell tbl' c t) = matches (cell ?tbl1 c t) + n_matches predictor c t exs
               \<and> total (cell tbl' c t) = total (cell ?tbl1 c t) + n_examples c exs"
    by blast
  have "score_loop predictor (e # exs) tbl = Inr tbl'"
    using se run by simp
  moreover have "fst ` set tbl' = fst ` set tbl \<union> question_type ` set (e # exs)"
    using keys by (auto simp: record_scores_keys)
  moreover have "distinct (map fst tbl) \<longrightarrow> distinct (map fst tbl')"
    using dist by (simp add: record_scores_distinct)
  moreover have "complete_rows tbl \<longrightarrow> complete_rows tbl'"
    using compl by (simp add: record_scores_complete)
  moreover have "\<forall>c. \<forall>t\<in>set tasks.
                 matches (cell tbl' c t) = matches (cell tbl c t) + n_matches predictor c t (e # exs)
               \<and> total (cell tbl' c t) = total (cell tbl c t) + n_examples c (e # exs)"
    using cnt by (auto simp: record_scores_cell bump_def n_matches_def n_examples_def)
  ultimately show ?case by blast
qed

lemma n_examples_pos: "c \<in> question_type ` set exs \<Longrightarrow> 0 < n_examples c exs"
  by (auto simp: n_examples_def filter_empty_conv)

text \<open>
  C7. When every example has its four gold sequences, the scoring pass returns a table
  whose categories, each listed once, are exactly the categories of the examples, so a
  category without examples has no entry; and for every category with an example and
  every task the entry counts the exact matches and the examples of that category, the
  count of examples is not zero, and the accuracy is the one divided by the other.
\<close>

theorem scorer_accuracy:
  assumes "\<forall>e\<in>set examples. \<forall>t\<in>set tasks. gold e t \<noteq> None"
  shows "\<exists>tbl. data_score examples helper predictor = Inr tbl
           \<and> distinct (map fst tbl)
           \<and> fst ` set tbl = question_type ` set examples
           \<and> (\<forall>c. c \<notin> question_type ` set examples \<longrightarrow> map_of tbl c = None)
           \<and> (\<forall>c\<in>question_type ` set examples. \<exists>row. map_of tbl c = Some row
                 \<and> (\<forall>t\<in>set tasks. \<exists>s. map_of row t = Some s
                       \<and> matches s = n_matches predictor c t examples
                       \<and> total s = n_examples c examples
                       \<and> 0 < total s
                       \<and> accuracy s = real (n_matches predictor c t examples)
                                        / real (n_examples c examples)))"
proof -
  from score_loop_counts [OF assms, of predictor "[]"] obtain tbl where
    run: "score_loop predictor examples [] = Inr tbl"
    and keys: "fst ` set tbl = question_type ` set examples"
    and dist: "distinct (map fst tbl)"
    and compl: "complete_rows tbl"
    and cnt: "\<forall>c. \<forall>t\<in>set tasks.
                 matches (cell tbl c t) = n_matches predictor c t examples
               \<and> total (cell tbl c t) = n_examples c examples"
    by (auto simp: complete_rows_def cell_def score_zero_def)
  have absent: "map_of tbl c = None" if "c \<notin> question_type ` set examples" for c
    using that keys by (simp add: map_of_eq_None_iff)
  have present: "\<exists>row. map_of tbl c = Some row
                 \<and> (\<forall>t\<in>set tasks. \<exists>s. map_of row t = Some s
                       \<and> matches s = n_matches predictor c t examples
                       \<and> total s = n_examples c examples
                       \<and> 0 < total s
                       \<and> accuracy s = real (n_matches predictor c t examples)
                                        / real (n_examples c examples))"
    if c: "c \<in> question_type ` set examples" for c
  proof -
    from c keys obtain row where row: "map_of tbl c = Some row"
      by (cases "map_of tbl c") (auto simp: map_of_eq_None_iff)
    have "\<exists>s. map_of row t = Some s
             \<and> matches s = n_matches predictor c t examples
             \<and> total s = n_examples c examples
             \<and> 0 < total s
             \<and> accuracy s = real (n_matches predictor c t examples) / real (n_examples c examples)"
      if t: "t \<in> set tasks" for t
    proof -
      from compl row t have "t \<in> fst ` set row"
        by (auto simp: complete_rows_def)
      then obtain s where s: "map_of row t = Some s"
        by (cases "map_of row t") (auto simp: map_of_eq_None_iff)
      with row have "cell tbl c t = s"
        by (simp add: cell_def)
      with cnt t have "matches s = n_matches predictor c t examples"
        and "total s = n_examples c examples"
        by auto
      with s n_examples_pos [OF c] show ?thesis
        by (simp add: accuracy_def)
    qed
    with row show ?thesis by blast
  qed
  from run dist keys absent present show ?thesis
    unfolding data_score_def by blast
qed

text \<open>
  The scenario of two categories: 2 of the 3 examples of \<open>A\<close> match on the logical form,
  none of the 2 examples of \<open>B\<close> does.
\<close>

theorem scorer_accuracy_witness:
  "list_all (\<lambda>e. list_all (\<lambda>t. gold e t \<noteq> None) tasks) scenario
   \<and> (\<exists>tbl rowA sA rowB sB.
         data_score scenario helper0 (Predictor extern0 model0 vocabs0) = Inr tbl
       \<and> map fst tbl = [''A'', ''B'']
       \<and> map_of tbl ''A'' = Some rowA \<and> map_of rowA LOGICAL_FORM = Some sA \<and> accuracy sA = 2 / 3
       \<and> map_of tbl ''B'' = Some rowB \<and> map_of rowB LOGICAL_FORM = Some sB \<and> accuracy sB = 0)"
proof -
  let ?P = "Predictor extern0 model0 vocabs0"
  have gold: "list_all (\<lambda>e. list_all (\<lambda>t. gold e t \<noteq> None) tasks) scenario"
    by code_simp
  then have hyp: "\<forall>e\<in>set scenario. \<forall>t\<in>set tasks. gold e t \<noteq> None"
    by (simp add: list_all_iff)
  from scorer_accuracy [OF hyp, of helper0 ?P] obtain tbl where
    run: "data_score scenario helper0 ?P = Inr tbl"
    and entries: "\<forall>c\<in>question_type ` set scenario. \<exists>row. map_of tbl c = Some row
                 \<and> (\<forall>t\<in>set tasks. \<exists>s. map_of row t = Some s
                       \<and> matches s = n_matches ?P c t scenario
                       \<and> total s = n_examples c scenario
                       \<and> 0 < total s
                       \<and> accuracy s = real (n_matches ?P c t scenario) / real (n_examples c scenario))"
    by blast
  have cats: "''A'' \<in> question_type ` set scenario" "''B'' \<in> question_type ` set scenario"
    by (simp_all add: scenario_def scenario_example_def)
  have lf: "LOGICAL_FORM \<in> set tasks"
    by (simp add: tasks_def)
  have counts: "n_matches ?P ''A'' LOGICAL_FORM scenario = 2" "n_examples ''A'' scenario = 3"
    "n_matches ?P ''B'' LOGICAL_FORM scenario = 0" "n_examples ''B'' scenario = 2"
    by code_simp+
  from entries cats(1) lf obtain rowA sA where
    a: "map_of tbl ''A'' = Some rowA" "map_of rowA LOGICAL_FORM = Some sA"
    "accuracy sA = real (n_matches ?P ''A'' LOGICAL_FORM scenario) / real (n_examples ''A'' scenario)"
    by blast
  from entries cats(2) lf obtain rowB sB where
    b: "map_of tbl ''B'' = Some rowB" "map_of rowB LOGICAL_FORM = Some sB"
    "accuracy sB = real (n_matches ?P ''B'' LOGICAL_FORM scenario) / real (n_examples ''B'' scenario)"
    by blast
  have "map fst (projr (data_score scenario helper0 ?P)) = [''A'', ''B'']"
    by code_simp
  with run have keys: "map fst tbl = [''A'', ''B'']"
    by simp
  from a(3) b(3) have "accuracy sA = 2 / 3" "accuracy sB = 0"
    by (simp_all add: counts)
  with run keys a(1,2) b(1,2) have
    "\<exists>tbl rowA sA rowB sB.
         data_score scenario helper0 ?P = Inr tbl
       \<and> map fst tbl = [''A'', ''B'']
       \<and> map_of tbl ''A'' = Some rowA \<and> map_of rowA LOGICAL_FORM = Some sA \<and> accuracy sA = 2 / 3
       \<and> map_of tbl ''B'' = Some rowB \<and> map_of rowB LOGICAL_FORM = Some sB \<and> accuracy sB = 0"
    by (intro exI [of _ tbl] exI [of _ rowA] exI [of _ sA] exI [of _ rowB] exI [of _ sB]) simp
  with gold show ?thesis
    by (rule conjI)
qed

section \<open>The predictor\<close>

lemma length_fed_advance: "length (fed (advance ex m x s)) = Suc (length (fed s))"
  by (simp add: advance_def)

lemma decodes_unique:
  "decodes ex m x s r \<Longrightarrow> decodes ex m x s r' \<Longrightarrow> r = r'"
proof (induction arbitrary: r' rule: decodes.induct)
  case (stop_max s)
  from stop_max.prems stop_max.hyps show ?case
    by (cases rule: decodes.cases) simp_all
next
  case (stop_end s)
  from stop_end.prems stop_end.hyps show ?case
    by (cases rule: decodes.cases) simp_all
next
  case (step s r)
  from step.prems step.hyps(1,2) have "decodes ex m x (advance ex m x s) r'"
    by (cases rule: decodes.cases) simp_all
  then show ?case by (rule step.IH)
qed

lemma decode_loop_decodes:
  "length (fed s) + n = max_decode_len ex \<Longrightarrow> decodes ex m x s (decode_loop ex m x n s)"
proof (induction n arbitrary: s)
  case 0
  then show ?case by (simp add: decodes.stop_max)
next
  case (Suc n)
  from Suc.prems have lt: "length (fed s) < max_decode_len ex" by simp
  show ?case
  proof (cases "next_symbol ex m x s LOGICAL_FORM = end_symbol ex")
    case True
    with lt show ?thesis by (simp add: decodes.stop_end)
  next
    case False
    from Suc.prems have "length (fed (advance ex m x s)) + n = max_decode_len ex"
      by (simp add: length_fed_advance)
    then have "decodes ex m x (advance ex m x s) (decode_loop ex m x n (advance ex m x s))"
      by (rule Suc.IH)
    with lt False show ?thesis by (simp add: decodes.step)
  qed
qed

lemma Predictor_decodes:
  "decodes ex m (ex_input e) decoder_init (Predictor ex m vs e)"
  by (simp add: Predictor_def decode_loop_decodes decoder_init_def)

lemma decode_loop_length:
  "length (decode_loop ex m x n s t) \<le> length (emitted s t) + n"
proof (induction n arbitrary: s)
  case 0
  show ?case by simp
next
  case (Suc n)
  have "length (decode_loop ex m x n (advance ex m x s) t)
          \<le> length (emitted (advance ex m x s) t) + n"
    by (rule Suc.IH)
  also have "length (emitted (advance ex m x s) t) = Suc (length (emitted s t))"
    by (simp add: advance_def)
  finally show ?case by simp
qed

lemma Predictor_length: "length (Predictor ex m vs e t) \<le> max_decode_len ex"
  using decode_loop_length [of ex m "ex_input e" "max_decode_len ex" decoder_init t]
  by (simp add: Predictor_def decoder_init_def)

lemma argmax_from_first:
  assumes "best < length ys" and "ys ! best = bv" and "\<forall>y\<in>set ys. y \<le> bv"
    and "\<forall>j<best. ys ! j < bv" and "i = length ys"
  shows "argmax_from best bv i xs < length (ys @ xs)
       \<and> (\<forall>z\<in>set (ys @ xs). z \<le> (ys @ xs) ! argmax_from best bv i xs)
       \<and> (\<forall>j<argmax_from best bv i xs. (ys @ xs) ! j < (ys @ xs) ! argmax_from best bv i xs)"
  using assms
proof (induction xs arbitrary: best bv i ys)
  case Nil
  then show ?case by simp
next
  case (Cons x xs)
  show ?case
  proof (cases "bv < x")
    case True
    have "argmax_from i x (Suc i) xs < length ((ys @ [x]) @ xs)
       \<and> (\<forall>z\<in>set ((ys @ [x]) @ xs). z \<le> ((ys @ [x]) @ xs) ! argmax_from i x (Suc i) xs)
       \<and> (\<forall>j<argmax_from i x (Suc i) xs.
             ((ys @ [x]) @ xs) ! j < ((ys @ [x]) @ xs) ! argmax_from i x (Suc i) xs)"
    proof (rule Cons.IH)
      show "i < length (ys @ [x])" using Cons.prems(5) by simp
      show "(ys @ [x]) ! i = x" using Cons.prems(5) by simp
      show "\<forall>y\<in>set (ys @ [x]). y \<le> x" using Cons.prems(3) True by auto
      show "\<forall>j<i. (ys @ [x]) ! j < x"
        using Cons.prems(3,5) True by (auto simp: nth_append dest!: nth_mem)
      show "Suc i = length (ys @ [x])" using Cons.prems(5) by simp
    qed
    with True show ?thesis by simp
  next
    case False
    have "argmax_from best bv (Suc i) xs < length ((ys @ [x]) @ xs)
       \<and> (\<forall>z\<in>set ((ys @ [x]) @ xs). z \<le> ((ys @ [x]) @ xs) ! argmax_from best bv (Suc i) xs)
       \<and> (\<forall>j<argmax_from best bv (Suc i) xs.
             ((ys @ [x]) @ xs) ! j < ((ys @ [x]) @ xs) ! argmax_from best bv (Suc i) xs)"
    proof (rule Cons.IH)
      show "best < length (ys @ [x])" using Cons.prems(1) by simp
      show "(ys @ [x]) ! best = bv" using Cons.prems(1,2) by (simp add: nth_append)
      show "\<forall>y\<in>set (ys @ [x]). y \<le> bv" using Cons.prems(3) False by auto
      show "\<forall>j<best. (ys @ [x]) ! j < bv" using Cons.prems(1,4) by (simp add: nth_append)
      show "Suc i = length (ys @ [x])" using Cons.prems(5) by simp
    qed
    with False show ?thesis by simp
  qed
qed

lemma argmax_is_first: "is_first_argmax xs (argmax xs)"
proof (cases xs)
  case Nil
  then show ?thesis by (simp add: is_first_argmax_def argmax_def)
next
  case (Cons x rest)
  have "argmax_from 0 x 1 rest < length ([x] @ rest)
       \<and> (\<forall>z\<in>set ([x] @ rest). z \<le> ([x] @ rest) ! argmax_from 0 x 1 rest)
       \<and> (\<forall>j<argmax_from 0 x 1 rest. ([x] @ rest) ! j < ([x] @ rest) ! argmax_from 0 x 1 rest)"
    by (rule argmax_from_first) simp_all
  with Cons show ?thesis
    by (simp add: is_first_argmax_def argmax_def list_all_iff)
       (auto simp: in_set_conv_nth)
qed

lemma next_symbol_eval_scores: "next_symbol (eval_scores ex) m x s t = next_symbol ex m x s t"
  by (simp add: next_symbol_def eval_scores_def)

lemma advance_eval_scores: "advance (eval_scores ex) m x s = advance ex m x s"
  by (simp add: advance_def next_symbol_eval_scores)

lemma decode_loop_eval_scores: "decode_loop (eval_scores ex) m x n s = decode_loop ex m x n s"
proof (induction n arbitrary: s)
  case 0
  show ?case by simp
next
  case (Suc n)
  have "end_symbol (eval_scores ex) = end_symbol ex"
    by (simp add: eval_scores_def)
  with Suc show ?case
    by (simp add: next_symbol_eval_scores advance_eval_scores)
qed

lemma Predictor_eval_scores: "Predictor (eval_scores ex) m vs e = Predictor ex m vs e"
  by (simp add: Predictor_def decode_loop_eval_scores) (simp add: eval_scores_def)

lemma greedy_advance:
  assumes "fed s = emitted s LOGICAL_FORM" and "greedy_run ex m x (emitted s)"
    and "next_symbol ex m x s LOGICAL_FORM \<noteq> end_symbol ex"
  shows "fed (advance ex m x s) = emitted (advance ex m x s) LOGICAL_FORM
       \<and> greedy_run ex m x (emitted (advance ex m x s))"
proof -
  let ?r = "emitted s" and ?r' = "emitted (advance ex m x s)"
  have r': "\<And>t. ?r' t = ?r t @ [next_symbol ex m x s t]"
    by (simp add: advance_def)
  from assms(2) have len: "\<And>t. length (?r t) = length (?r LOGICAL_FORM)"
    and old: "\<And>t i. i < length (?r LOGICAL_FORM) \<Longrightarrow>
                ?r t ! i = argmax (decoder_scores ex (m\<lparr>training := False\<rparr>) x (take i (?r LOGICAL_FORM)) t)"
    and noend: "end_symbol ex \<notin> set (?r LOGICAL_FORM)"
    by (simp_all add: greedy_run_def)
  have fed: "fed (advance ex m x s) = ?r' LOGICAL_FORM"
    using assms(1) by (simp add: advance_def)
  have "?r' t ! i = argmax (decoder_scores ex (m\<lparr>training := False\<rparr>) x (take i (?r' LOGICAL_FORM)) t)"
    if "i < length (?r' LOGICAL_FORM)" for t i
  proof (cases "i < length (?r LOGICAL_FORM)")
    case True
    then show ?thesis
      using old [OF True, of t] len [of t] by (simp add: r' nth_append)
  next
    case False
    with that have "i = length (?r LOGICAL_FORM)"
      by (simp add: r')
    then show ?thesis
      using len [of t] assms(1) by (simp add: r' next_symbol_def nth_append)
  qed
  moreover have "\<And>t. length (?r' t) = length (?r' LOGICAL_FORM)"
    using len by (simp add: r')
  moreover have "end_symbol ex \<notin> set (?r' LOGICAL_FORM)"
    using noend assms(3) by (auto simp: r')
  ultimately show ?thesis
    using fed by (simp add: greedy_run_def)
qed

lemma decode_loop_greedy:
  "fed s = emitted s LOGICAL_FORM \<Longrightarrow> greedy_run ex m x (emitted s) \<Longrightarrow>
   greedy_run ex m x (decode_loop ex m x n s)"
proof (induction n arbitrary: s)
  case 0
  then show ?case by simp
next
  case (Suc n)
  show ?case
  proof (cases "next_symbol ex m x s LOGICAL_FORM = end_symbol ex")
    case True
    with Suc.prems show ?thesis by simp
  next
    case False
    from greedy_advance [OF Suc.prems False]
    have "greedy_run ex m x (decode_loop ex m x n (advance ex m x s))"
      by (intro Suc.IH) simp_all
    with False show ?thesis by simp
  qed
qed

lemma decode_loop_stop:
  "fed s = emitted s LOGICAL_FORM \<Longrightarrow> length (fed s) + n = max_decode_len ex \<Longrightarrow>
   length (decode_loop ex m x n s LOGICAL_FORM) = max_decode_len ex
   \<or> argmax (decoder_scores ex (m\<lparr>training := False\<rparr>) x (decode_loop ex m x n s LOGICAL_FORM)
        LOGICAL_FORM) = end_symbol ex"
proof (induction n arbitrary: s)
  case 0
  then show ?case by simp
next
  case (Suc n)
  show ?case
  proof (cases "next_symbol ex m x s LOGICAL_FORM = end_symbol ex")
    case True
    with Suc.prems show ?thesis by (simp add: next_symbol_def)
  next
    case False
    have "fed (advance ex m x s) = emitted (advance ex m x s) LOGICAL_FORM"
      using Suc.prems(1) by (simp add: advance_def)
    moreover have "length (fed (advance ex m x s)) + n = max_decode_len ex"
      using Suc.prems(2) by (simp add: advance_def)
    ultimately have
      "length (decode_loop ex m x n (advance ex m x s) LOGICAL_FORM) = max_decode_len ex
       \<or> argmax (decoder_scores ex (m\<lparr>training := False\<rparr>) x
             (decode_loop ex m x n (advance ex m x s) LOGICAL_FORM) LOGICAL_FORM) = end_symbol ex"
      by (rule Suc.IH)
    with False show ?thesis by simp
  qed
qed

lemma Predictor_greedy: "greedy_run ex m (ex_input e) (Predictor ex m vs e)"
  unfolding Predictor_def
  by (rule decode_loop_greedy) (simp_all add: decoder_init_def greedy_run_def)

lemma Predictor_stop:
  "length (Predictor ex m vs e LOGICAL_FORM) = max_decode_len ex
   \<or> argmax (decoder_scores ex (m\<lparr>training := False\<rparr>) (ex_input e)
        (Predictor ex m vs e LOGICAL_FORM) LOGICAL_FORM) = end_symbol ex"
  unfolding Predictor_def
  by (rule decode_loop_stop) (simp_all add: decoder_init_def)

lemma first_argmax_unique:
  assumes "is_first_argmax xs k" and "is_first_argmax xs k'"
  shows "k = k'"
proof (cases "xs = []")
  case True
  with assms show ?thesis by (simp add: is_first_argmax_def)
next
  case False
  with assms have k: "k < length xs" "\<forall>j<length xs. xs ! j \<le> xs ! k" "\<forall>j<k. xs ! j < xs ! k"
    and k': "k' < length xs" "\<forall>j<length xs. xs ! j \<le> xs ! k'" "\<forall>j<k'. xs ! j < xs ! k'"
    by (simp_all add: is_first_argmax_def list_all_length)
  show ?thesis
  proof (rule ccontr)
    assume "k \<noteq> k'"
    then consider "k < k'" | "k' < k" by linarith
    then show False
    proof cases
      case 1
      with k' have "xs ! k < xs ! k'" by simp
      moreover from k(2) k'(1) have "xs ! k' \<le> xs ! k" by simp
      ultimately show False by simp
    next
      case 2
      with k have "xs ! k' < xs ! k" by simp
      moreover from k'(2) k(1) have "xs ! k \<le> xs ! k'" by simp
      ultimately show False by simp
    qed
  qed
qed

text \<open>
  C8. For a model state and an input, any two runs of the decoder from its start state
  end with the same sequences on all four streams, and these are the sequences the
  predictor returns. The predictor reads the scores of the model in evaluation mode
  only. Its streams have one length, at most the maximum length; the symbol of every
  stream at every step is the first index of a greatest score among the scores for the
  logical-form symbols decoded before that step (greedy arg-max, which leaves no
  choice); the logical-form stream holds no end marker; and decoding stopped at the
  maximum length or where the arg-max of the logical-form scores is the end marker.
\<close>

theorem predictor_deterministic:
  assumes "decodes ex m (ex_input e) decoder_init r"
    and "decodes ex m (ex_input e) decoder_init r'"
  shows "r = r' \<and> r = Predictor ex m vs e
       \<and> Predictor (eval_scores ex) m vs e = Predictor ex m vs e
       \<and> (\<forall>t. length (r t) = length (r LOGICAL_FORM))
       \<and> length (r LOGICAL_FORM) \<le> max_decode_len ex
       \<and> (\<forall>t. \<forall>i<length (r LOGICAL_FORM).
             is_first_argmax
               (decoder_scores ex (m\<lparr>training := False\<rparr>) (ex_input e) (take i (r LOGICAL_FORM)) t)
               (r t ! i))
       \<and> end_symbol ex \<notin> set (r LOGICAL_FORM)
       \<and> (length (r LOGICAL_FORM) = max_decode_len ex
          \<or> is_first_argmax
               (decoder_scores ex (m\<lparr>training := False\<rparr>) (ex_input e) (r LOGICAL_FORM) LOGICAL_FORM)
               (end_symbol ex))"
proof -
  from assms have same: "r = r'"
    by (rule decodes_unique)
  from assms(1) Predictor_decodes have pred: "r = Predictor ex m vs e"
    by (rule decodes_unique)
  have greedy: "greedy_run ex m (ex_input e) r"
    unfolding pred by (rule Predictor_greedy)
  have bound: "length (r LOGICAL_FORM) \<le> max_decode_len ex"
    unfolding pred by (rule Predictor_length)
  have steps: "is_first_argmax
                 (decoder_scores ex (m\<lparr>training := False\<rparr>) (ex_input e) (take i (r LOGICAL_FORM)) t)
                 (r t ! i)"
    if "i < length (r LOGICAL_FORM)" for t i
    using greedy that
      argmax_is_first [of "decoder_scores ex (m\<lparr>training := False\<rparr>) (ex_input e)
                              (take i (r LOGICAL_FORM)) t"]
    by (simp add: greedy_run_def)
  have stop: "length (r LOGICAL_FORM) = max_decode_len ex
          \<or> is_first_argmax
               (decoder_scores ex (m\<lparr>training := False\<rparr>) (ex_input e) (r LOGICAL_FORM) LOGICAL_FORM)
               (end_symbol ex)"
    using Predictor_stop [of ex m vs e]
      argmax_is_first [of "decoder_scores ex (m\<lparr>training := False\<rparr>) (ex_input e)
                              (r LOGICAL_FORM) LOGICAL_FORM"]
    unfolding pred [symmetric] by auto
  from greedy have "\<forall>t. length (r t) = length (r LOGICAL_FORM)"
    and "end_symbol ex \<notin> set (r LOGICAL_FORM)"
    by (simp_all add: greedy_run_def)
  with same pred bound steps stop Predictor_eval_scores [of ex m vs e] show ?thesis
    by blast
qed

text \<open>
  A decoder whose first two steps choose symbol 1 and whose third chooses the end marker:
  the run has two steps and stops at the end marker.
\<close>

theorem predictor_deterministic_witness:
  "decodes extern0 model0 (ex_input test_example4) decoder_init (\<lambda>t. [1, 1])
   \<and> Predictor extern0 model0 vocabs0 test_example4 = (\<lambda>t. [1, 1])
   \<and> is_first_argmax
        (decoder_scores extern0 (model0\<lparr>training := False\<rparr>) (ex_input test_example4) [1] TYPE_POINTER) 1
   \<and> is_first_argmax
        (decoder_scores extern0 (model0\<lparr>training := False\<rparr>) (ex_input test_example4) [1, 1] LOGICAL_FORM)
        (end_symbol extern0)"
proof -
  let ?x = "ex_input test_example4"
  let ?s1 = "advance extern0 model0 ?x decoder_init"
  let ?s2 = "advance extern0 model0 ?x ?s1"
  let ?r = "\<lambda>t::task. [1, 1::nat]"
  have mx: "max_decode_len extern0 = 5" and en: "end_symbol extern0 = 0"
    by (simp_all add: extern0_def)
  have sym: "\<And>s t. next_symbol extern0 model0 ?x s t = (if length (fed s) < 2 then 1 else 0)"
    by (simp add: next_symbol_def extern0_def argmax_def)
  have f0: "length (fed decoder_init) = 0"
    by (simp add: decoder_init_def)
  have f1: "length (fed ?s1) = 1"
    by (simp add: length_fed_advance f0)
  have f2: "length (fed ?s2) = 2"
    by (simp add: length_fed_advance f0)
  have e2: "emitted ?s2 = ?r"
    by (simp add: advance_def sym f0 f1) (simp add: decoder_init_def)
  have "decodes extern0 model0 ?x ?s2 (emitted ?s2)"
    by (rule decodes.stop_end) (simp_all add: f2 sym mx en)
  then have "decodes extern0 model0 ?x ?s1 (emitted ?s2)"
    by (rule decodes.step [rotated 2]) (simp_all add: f1 sym mx en)
  then have "decodes extern0 model0 ?x decoder_init (emitted ?s2)"
    by (rule decodes.step [rotated 2]) (simp_all add: f0 sym mx en)
  then have run: "decodes extern0 model0 ?x decoder_init ?r"
    by (simp only: e2)
  note inst = predictor_deterministic [OF run run, of vocabs0]
  from inst have pred: "Predictor extern0 model0 vocabs0 test_example4 = ?r"
    by simp
  from inst have "\<forall>t. \<forall>i<length (?r LOGICAL_FORM).
             is_first_argmax
               (decoder_scores extern0 (model0\<lparr>training := False\<rparr>) ?x (take i (?r LOGICAL_FORM)) t)
               (?r t ! i)"
    by blast
  from this [rule_format, of 1 TYPE_POINTER]
  have step1: "is_first_argmax
        (decoder_scores extern0 (model0\<lparr>training := False\<rparr>) ?x [1] TYPE_POINTER) 1"
    by simp
  from inst have "length (?r LOGICAL_FORM) = max_decode_len extern0
          \<or> is_first_argmax
               (decoder_scores extern0 (model0\<lparr>training := False\<rparr>) ?x (?r LOGICAL_FORM) LOGICAL_FORM)
               (end_symbol extern0)"
    by blast
  then have stop: "is_first_argmax
        (decoder_scores extern0 (model0\<lparr>training := False\<rparr>) ?x [1, 1] LOGICAL_FORM)
        (end_symbol extern0)"
    by (simp add: mx)
  from run pred step1 stop show ?thesis
    by simp
qed

section \<open>The criterion and the targets\<close>

lemma ignore_index_make_criterion:
  "ignore_index (make_criterion t vs) = stoi (vs LOGICAL_FORM) PAD_TOKEN"
  by (cases t) (simp_all add: make_criterion_def criterion_table_def)

text \<open>
  C9. Whatever the task, the criterion is built with the PAD index of the logical-form
  vocabulary as its ignore index. Of the positions whose target is the PAD index of
  the vocabulary of a task \<open>p\<close>, the criterion keeps none when that index is the PAD
  index of the logical-form vocabulary, and all of them when it is another index.
\<close>

theorem criterion_ignores_logical_form_pad:
  "ignore_index (make_criterion t vs) = stoi (vs LOGICAL_FORM) PAD_TOKEN
   \<and> padding_positions (stoi (vs p) PAD_TOKEN)
        (kept_positions (ignore_index (make_criterion t vs)) out tgt) =
      (if stoi (vs p) PAD_TOKEN = stoi (vs LOGICAL_FORM) PAD_TOKEN then []
       else padding_positions (stoi (vs p) PAD_TOKEN) (zip out tgt))"
  by (auto simp: ignore_index_make_criterion padding_positions_def kept_positions_def
           intro: filter_cong)

lemma length_concat_rows:
  "\<forall>r\<in>set xss. length r = n \<Longrightarrow> length (concat xss) = length xss * n"
  by (induction xss) simp_all

lemma concat_rows_nth:
  "\<forall>r\<in>set xss. length r = n \<Longrightarrow> k < length xss \<Longrightarrow> j < n \<Longrightarrow>
   concat xss ! (k * n + j) = xss ! k ! j"
proof (induction xss arbitrary: k)
  case Nil
  then show ?case by simp
next
  case (Cons r xss)
  show ?case
  proof (cases k)
    case 0
    with Cons.prems show ?thesis by (simp add: nth_append)
  next
    case (Suc k')
    with Cons.prems have "concat xss ! (k' * n + j) = xss ! k' ! j"
      by (intro Cons.IH) simp_all
    moreover from Cons.prems have "length r = n" by simp
    ultimately show ?thesis using Suc by (simp add: nth_append add.assoc)
  qed
qed

lemma view_drop_first_length:
  "wf_tensor t \<Longrightarrow> length (view_flat (drop_first t)) = size0 t * (ncols t - 1)"
  by (simp add: view_flat_def drop_first_def size0_def wf_tensor_def list_all_iff
        length_concat_rows [where n = "ncols t - 1"])

lemma view_drop_first_nth:
  assumes "wf_tensor t" and "k < size0 t" and "j < ncols t - 1"
  shows "view_flat (drop_first t) ! (k * (ncols t - 1) + j) = rows t ! k ! Suc j"
proof -
  have len: "\<forall>r\<in>set (map tl (rows t)). length r = ncols t - 1"
    using assms(1) by (simp add: wf_tensor_def list_all_iff)
  have "concat (map tl (rows t)) ! (k * (ncols t - 1) + j) = map tl (rows t) ! k ! j"
    using len assms(2,3) by (intro concat_rows_nth) (simp_all add: size0_def)
  also have "\<dots> = tl (rows t ! k) ! j"
    using assms(2) by (simp add: size0_def)
  also have "\<dots> = rows t ! k ! Suc j"
    using assms by (simp add: nth_tl wf_tensor_def list_all_iff size0_def)
  finally show ?thesis by (simp add: view_flat_def drop_first_def)
qed

lemma batch_loss_only_at:
  "batch_loss (only_at b ex) t m g vs helper crit b = batch_loss ex t m g vs helper crit b"
proof -
  have c1: "\<And>out tgt. call_multi (only_at b ex) crit out tgt = call_multi ex crit out tgt"
    by (cases crit) (simp_all add: only_at_def)
  have c2: "\<And>out tgt. call_single (only_at b ex) crit out tgt = call_single ex crit out tgt"
    by (cases crit) (simp_all add: only_at_def)
  have f: "forward (only_at b ex) m g (b_input b) (drop_last (b_logical_form b)) (b_entity_pointer b)
         = forward ex m g (b_input b) (drop_last (b_logical_form b)) (b_entity_pointer b)"
    by (simp add: only_at_def)
  show ?thesis
    by (simp add: batch_loss_def Let_def c1 c2 f split: sum.splits option.splits)
qed

lemma target_task:
  "t \<in> set tasks \<Longrightarrow> target b entity_t t = Some (view_flat (drop_first (task_sequence b entity_t t)))"
  by (auto simp: tasks_def target_def task_sequence_def)

lemma task_sequence_shape:
  assumes "wf_batch b"
    and "construct_entity_target (b_id b) helper vs (shape_last (b_predicate_pointer b)) = Inr entity_t"
    and "t \<in> set tasks"
  shows "wf_tensor (task_sequence b entity_t t)
       \<and> ncols (task_sequence b entity_t t) = ncols (b_logical_form b)
       \<and> size0 (task_sequence b entity_t t) = size0 (b_input b)"
  using assms(1,3) construct_entity_target_shape [OF assms(2)]
  by (auto simp: tasks_def task_sequence_def wf_batch_def shape_last_def)

text \<open>
  C10. For a batch whose sequence fields share one time dimension and whose entity target
  could be built: the loss step calls the model only on the input, the logical form
  without its last position and the entity-pointer field, and computes the loss from the
  model's output and the target dictionary alone; the entity target has the time
  dimension of the predicate-pointer field; and for each of the four tasks the target is
  the task's sequence without its first position, flattened: its length is the batch
  size times the time dimension less one, and its element for example \<open>k\<close> and offset
  \<open>j\<close> is position \<open>j + 1\<close> of row \<open>k\<close>, so position 0 of a row is in no target.
\<close>

theorem loss_step_targets:
  assumes "wf_batch b"
    and "construct_entity_target (b_id b) helper vs (shape_last (b_predicate_pointer b)) = Inr entity_t"
  shows "batch_loss (only_at b ex) t m g vs helper crit b = batch_loss ex t m g vs helper crit b
     \<and> batch_loss ex t m g vs helper crit b =
         (case forward ex m g (b_input b) (drop_last (b_logical_form b)) (b_entity_pointer b) of
            Inl e \<Rightarrow> Inl e
          | Inr out \<Rightarrow>
              if t = MULTITASK then call_multi ex crit out (target b entity_t)
              else (case target b entity_t t of
                      None \<Rightarrow> Inl KeyError
                    | Some y \<Rightarrow> call_single ex crit (out t) y))
     \<and> rows (drop_last (b_logical_form b)) = map butlast (rows (b_logical_form b))
     \<and> ncols entity_t = ncols (b_predicate_pointer b)
     \<and> (\<forall>tk\<in>set tasks.
           target b entity_t tk = Some (view_flat (drop_first (task_sequence b entity_t tk)))
         \<and> ncols (drop_first (task_sequence b entity_t tk)) = ncols (b_logical_form b) - 1
         \<and> length (view_flat (drop_first (task_sequence b entity_t tk)))
             = size0 (b_input b) * (ncols (b_logical_form b) - 1)
         \<and> (\<forall>k<size0 (b_input b). \<forall>j<ncols (b_logical_form b) - 1.
               view_flat (drop_first (task_sequence b entity_t tk)) ! (k * (ncols (b_logical_form b) - 1) + j)
               = rows (task_sequence b entity_t tk) ! k ! Suc j))"
proof -
  have "batch_loss ex t m g vs helper crit b =
         (case forward ex m g (b_input b) (drop_last (b_logical_form b)) (b_entity_pointer b) of
            Inl e \<Rightarrow> Inl e
          | Inr out \<Rightarrow>
              if t = MULTITASK then call_multi ex crit out (target b entity_t)
              else (case target b entity_t t of
                      None \<Rightarrow> Inl KeyError
                    | Some y \<Rightarrow> call_single ex crit (out t) y))"
    using assms(2) by (simp add: batch_loss_def Let_def)
  moreover have "rows (drop_last (b_logical_form b)) = map butlast (rows (b_logical_form b))"
    by (simp add: drop_last_def)
  moreover have "ncols entity_t = ncols (b_predicate_pointer b)"
    using construct_entity_target_shape [OF assms(2)] by (simp add: shape_last_def)
  moreover have
    "target b entity_t tk = Some (view_flat (drop_first (task_sequence b entity_t tk)))
     \<and> ncols (drop_first (task_sequence b entity_t tk)) = ncols (b_logical_form b) - 1
     \<and> length (view_flat (drop_first (task_sequence b entity_t tk)))
         = size0 (b_input b) * (ncols (b_logical_form b) - 1)
     \<and> (\<forall>k<size0 (b_input b). \<forall>j<ncols (b_logical_form b) - 1.
           view_flat (drop_first (task_sequence b entity_t tk)) ! (k * (ncols (b_logical_form b) - 1) + j)
           = rows (task_sequence b entity_t tk) ! k ! Suc j)"
    if tk: "tk \<in> set tasks" for tk
  proof -
    from task_sequence_shape [OF assms tk]
    have wf: "wf_tensor (task_sequence b entity_t tk)"
      and nc: "ncols (task_sequence b entity_t tk) = ncols (b_logical_form b)"
      and sz: "size0 (task_sequence b entity_t tk) = size0 (b_input b)"
      by simp_all
    have "ncols (drop_first (task_sequence b entity_t tk)) = ncols (b_logical_form b) - 1"
      by (simp add: drop_first_def nc)
    moreover have "length (view_flat (drop_first (task_sequence b entity_t tk)))
         = size0 (b_input b) * (ncols (b_logical_form b) - 1)"
      using view_drop_first_length [OF wf] by (simp add: nc sz)
    moreover have "view_flat (drop_first (task_sequence b entity_t tk))
                     ! (k * (ncols (b_logical_form b) - 1) + j)
                   = rows (task_sequence b entity_t tk) ! k ! Suc j"
      if "k < size0 (b_input b)" and "j < ncols (b_logical_form b) - 1" for k j
      using view_drop_first_nth [OF wf, of k j] that by (simp add: nc sz)
    ultimately show ?thesis
      using target_task [OF tk] by blast
  qed
  ultimately show ?thesis
    using batch_loss_only_at [of b ex t m g vs helper crit] by blast
qed

text \<open>
  The batch of four examples and time dimension 4: every target has 4 * 3 elements, and
  the start markers (2 in the fields, the first column of the entity target) are gone.
\<close>

theorem loss_step_targets_witness:
  "wf_batch batchA
   \<and> construct_entity_target (b_id batchA) helper0 vocabs0 (shape_last (b_predicate_pointer batchA)) =
       Inr \<lparr>ncols = 4, rows = [[1, 5, 0, 0], [1, 5, 0, 0], [1, 5, 0, 0], [1, 5, 0, 0]]\<rparr>
   \<and> rows (drop_last (b_logical_form batchA)) = [[2, 3, 0], [2, 4, 0], [2, 3, 0], [2, 4, 0]]
   \<and> target batchA \<lparr>ncols = 4, rows = [[1, 5, 0, 0], [1, 5, 0, 0], [1, 5, 0, 0], [1, 5, 0, 0]]\<rparr>
        LOGICAL_FORM = Some [3, 0, 0, 4, 0, 0, 3, 0, 0, 4, 0, 0]
   \<and> target batchA \<lparr>ncols = 4, rows = [[1, 5, 0, 0], [1, 5, 0, 0], [1, 5, 0, 0], [1, 5, 0, 0]]\<rparr>
        ENTITY_POINTER = Some [5, 0, 0, 5, 0, 0, 5, 0, 0, 5, 0, 0]
   \<and> size0 (b_input batchA) * (ncols (b_logical_form batchA) - 1) = 12"
proof -
  let ?E = "\<lparr>ncols = 4, rows = [[1, 5, 0, 0], [1, 5, 0, 0], [1, 5, 0, 0], [1, 5, 0, 0 :: int]]\<rparr>"
  have wf: "wf_batch batchA"
    by code_simp
  have built: "construct_entity_target (b_id batchA) helper0 vocabs0
                 (shape_last (b_predicate_pointer batchA)) = Inr ?E"
    by code_simp
  note inst = loss_step_targets [OF wf built, of extern0 MULTITASK model0 False "MultiTaskLoss 0"]
  have in_tasks: "LOGICAL_FORM \<in> set tasks" "ENTITY_POINTER \<in> set tasks"
    by (simp_all add: tasks_def)
  from inst have "rows (drop_last (b_logical_form batchA)) = map butlast (rows (b_logical_form batchA))"
    by blast
  then have dropped: "rows (drop_last (b_logical_form batchA)) = [[2, 3, 0], [2, 4, 0], [2, 3, 0], [2, 4, 0]]"
    by (simp add: batchA_def)
  from inst in_tasks(1)
  have "target batchA ?E LOGICAL_FORM = Some (view_flat (drop_first (task_sequence batchA ?E LOGICAL_FORM)))"
    by blast
  then have lf: "target batchA ?E LOGICAL_FORM = Some [3, 0, 0, 4, 0, 0, 3, 0, 0, 4, 0, 0]"
    by (simp add: task_sequence_def view_flat_def drop_first_def batchA_def)
  from inst in_tasks(2)
  have "target batchA ?E ENTITY_POINTER = Some (view_flat (drop_first (task_sequence batchA ?E ENTITY_POINTER)))"
    by blast
  then have ent: "target batchA ?E ENTITY_POINTER = Some [5, 0, 0, 5, 0, 0, 5, 0, 0, 5, 0, 0]"
    by (simp add: task_sequence_def view_flat_def drop_first_def)
  have n: "size0 (b_input batchA) * (ncols (b_logical_form batchA) - 1) = 12"
    by (simp add: batchA_def size0_def)
  from wf built dropped lf ent n show ?thesis
    by simp
qed

end
